theory Spec2Isabelle
  imports Complex_Main "HOL-Library.Multiset"
begin

section \<open>Python and numpy primitives\<close>

text \<open>
  The debiasers of this package work on one-dimensional numpy arrays of floats. Arrays
  are lists here, and a finite float is idealised as a \<^typ>\<open>real\<close>: rounding
  errors of the floating-point arithmetic are not modelled. Every \<^verbatim>\<open>raise\<close> of the
  source, and every exception that a numpy or Python primitive raises on the inputs a
  function can be given, is a value \<open>Inl e\<close> of the result type \<open>error + 'a\<close>.
\<close>

datatype raised_by =
    Time_information_check
  | Delta_shift_check
  | Trend_preservation_check
  | Reasonable_physical_range_check
  | Step2_all_values_invalid
  | Zero_size_reduction
  | Masked_assignment_shape
  | Boolean_index_shape
  | Nan_to_integer
  | Linregress_identical_x
  | Empty_sample
  | Quantile_out_of_range
  | Division
  | Uniform_range
  | Broadcast_shape
  | Index_out_of_bounds

datatype error =
    ValueError raised_by
  | IndexError raised_by
  | ZeroDivisionError raised_by
  | OverflowError raised_by

fun is_ValueError :: "error \<Rightarrow> bool" where
  "is_ValueError (ValueError _) = True"
| "is_ValueError _ = False"

text \<open>Sequencing of computations that may raise.\<close>

definition bind :: "error + 'a \<Rightarrow> ('a \<Rightarrow> error + 'b) \<Rightarrow> error + 'b" where
  "bind m f = (case m of Inl e \<Rightarrow> Inl e | Inr x \<Rightarrow> f x)"

text \<open>
  Python's built-in \<^verbatim>\<open>round(x)\<close> with one argument: the nearest integer, a tie going to
  the even neighbour.
\<close>

definition py_round :: "real \<Rightarrow> int" where
  "py_round x =
     (let f = \<lfloor>x\<rfloor>; d = x - of_int f in
      if d < 1 / 2 then f
      else if 1 / 2 < d then f + 1
      else if even f then f else f + 1)"

text \<open>\<^verbatim>\<open>np.mean\<close> and \<^verbatim>\<open>np.unique\<close> (the sorted distinct values).\<close>

definition mean :: "real list \<Rightarrow> real" where
  "mean xs = sum_list xs / real (length xs)"

definition np_unique :: "'a::linorder list \<Rightarrow> 'a list" where
  "np_unique xs = sort (remdups xs)"

text \<open>
  Boolean-mask indexing \<^verbatim>\<open>x[mask]\<close>: the entries of \<open>x\<close> where the mask holds. numpy
  raises \<^verbatim>\<open>IndexError\<close> when the mask and the array differ in length.
\<close>

definition mask_select :: "'a list \<Rightarrow> bool list \<Rightarrow> error + 'a list" where
  "mask_select x msk =
     (if length x \<noteq> length msk then Inl (IndexError Boolean_index_shape)
      else Inr (map fst (filter snd (zip x msk))))"

text \<open>
  Masked assignment \<^verbatim>\<open>a[mask] = vals\<close>: the values go, in order, to the positions where
  the mask holds. numpy accepts as many values as the mask has true entries, or a single
  value, which it broadcasts; any other number of values raises \<^verbatim>\<open>ValueError\<close>.
\<close>

fun scatter :: "'a list \<Rightarrow> bool list \<Rightarrow> 'a list \<Rightarrow> 'a list" where
  "scatter (a # as) (m # ms) vals =
     (if m then (case vals of v # vals' \<Rightarrow> v # scatter as ms vals' | [] \<Rightarrow> a # scatter as ms [])
      else a # scatter as ms vals)"
| "scatter as _ _ = as"

definition mask_assign :: "'a list \<Rightarrow> bool list \<Rightarrow> 'a list \<Rightarrow> error + 'a list" where
  "mask_assign a msk vals =
     (if length a \<noteq> length msk then Inl (IndexError Boolean_index_shape)
      else if length vals = length (filter id msk) then Inr (scatter a msk vals)
      else if length vals = 1 then Inr (map2 (\<lambda>v m. if m then hd vals else v) a msk)
      else Inl (ValueError Masked_assignment_shape))"

text \<open>
  \<^verbatim>\<open>np.interp(v, xp, fp)\<close> for increasing \<open>xp\<close>: the piecewise-linear function through
  the points \<open>(xp, fp)\<close>, constant to the left of the first and to the right of the last
  point.
\<close>

fun interp_pts :: "(real \<times> real) list \<Rightarrow> real \<Rightarrow> real" where
  "interp_pts [] v = 0"
| "interp_pts [(a, fa)] v = fa"
| "interp_pts ((a, fa) # (b, fb) # ps) v =
     (if v < a then fa
      else if v < b then fa + (v - a) * (fb - fa) / (b - a)
      else interp_pts ((b, fb) # ps) v)"

definition np_interp :: "real list \<Rightarrow> real list \<Rightarrow> real \<Rightarrow> real" where
  "np_interp xp fp v = interp_pts (zip xp fp) v"

text \<open>
  Indexing with an array of indices, \<^verbatim>\<open>x[idx]\<close> and \<^verbatim>\<open>a[idx] = vals\<close>. An index beyond
  the array raises \<^verbatim>\<open>IndexError\<close>; of two values assigned to the same index the later
  one stays. \<^verbatim>\<open>np.in1d(a, b)\<close> is the mask of the entries of \<open>a\<close> that occur in \<open>b\<close>.
\<close>

definition index_select :: "'a list \<Rightarrow> nat list \<Rightarrow> error + 'a list" where
  "index_select x idx =
     (if list_all (\<lambda>i. i < length x) idx then Inr (map (\<lambda>i. x ! i) idx)
      else Inl (IndexError Index_out_of_bounds))"

definition index_assign :: "'a list \<Rightarrow> nat list \<Rightarrow> 'a list \<Rightarrow> error + 'a list" where
  "index_assign a idx vals =
     (if \<not> list_all (\<lambda>i. i < length a) idx then Inl (IndexError Index_out_of_bounds)
      else if length vals = length idx
        then Inr (fold (\<lambda>(i, v) a. a[i := v]) (zip idx vals) a)
      else if length vals = 1
        then Inr (fold (\<lambda>i a. a[i := hd vals]) idx a)
      else Inl (ValueError Masked_assignment_shape))"

definition np_in1d :: "'a list \<Rightarrow> 'a list \<Rightarrow> bool list" where
  "np_in1d a b = map (\<lambda>v. List.member b v) a"

text \<open>
  \<^verbatim>\<open>np.argsort\<close>: the indices in the order of the values. Equal values keep the order
  of their indices here; numpy's default sort leaves their order open.
\<close>

definition argsort :: "'a::linorder list \<Rightarrow> nat list" where
  "argsort x = sort_key (\<lambda>i. x ! i) [0..<length x]"

text \<open>
  \<^verbatim>\<open>np.isclose(a, b)\<close> with the default tolerances:
  \<open>|a - b| \<le> 10\<^sup>-\<^sup>8 + 10\<^sup>-\<^sup>5 \<cdot> |b|\<close>.
\<close>

definition isclose :: "real \<Rightarrow> real \<Rightarrow> bool" where
  "isclose a b = (\<bar>a - b\<bar> \<le> 1 / 10 ^ 8 + 1 / 10 ^ 5 * \<bar>b\<bar>)"

section \<open>The global random generator of numpy\<close>

text \<open>
  \<^verbatim>\<open>np.random.uniform\<close> and \<^verbatim>\<open>np.random.random\<close> draw from the generator that numpy
  keeps as process-global state; no function of the package takes a generator as an
  argument or seeds one. The state of that generator is made explicit here: it is the
  sequence of the numbers in \<open>[0, 1)\<close> that it will draw next. A function that draws
  takes the state and returns the state that is left; \<^verbatim>\<open>uniform(low, high)\<close> is
  \<open>low + (high - low) \<cdot> u\<close> for a draw \<open>u\<close>.
\<close>

type_synonym rng = "nat \<Rightarrow> real"


definition np_random_uniform :: "rng \<Rightarrow> real \<Rightarrow> real \<Rightarrow> nat \<Rightarrow> real list \<times> rng" where
  "np_random_uniform g low high n =
     (map (\<lambda>i. low + (high - low) * g i) [0..<n], \<lambda>i. g (i + n))"

section \<open>The helpers of \<^verbatim>\<open>utils\<close>\<close>

text \<open>
  The module \<^verbatim>\<open>utils\<close> of the package is not among the sources. What the debiasers
  import from it is either modelled from the specification (each such definition says
  so) or a field of the record \<open>utils\<close>, a parameter of every function that calls it:
  the calendar functions \<^verbatim>\<open>year\<close>, \<^verbatim>\<open>month\<close> and \<^verbatim>\<open>day_of_year\<close> (a date is a day
  number), the day assumed for the first sample when the dates are inferred, the
  estimators of the empirical distributions that are not modelled, and the running
  windows. \<open>garbage\<close> is the content of the memory that \<^verbatim>\<open>np.empty_like\<close> returns.
\<close>

type_synonym time = int

record utils =
  year :: "time \<Rightarrow> int"
  month :: "time \<Rightarrow> nat"
  day_of_year :: "time \<Rightarrow> nat"
  january_1st :: time
  ecdf_kernel_density :: "real list \<Rightarrow> real list \<Rightarrow> error + real list"
  iecdf_other :: "string \<Rightarrow> real list \<Rightarrow> real list \<Rightarrow> error + real list"
  running_window_over_years_use :: "int \<Rightarrow> int \<Rightarrow> int list \<Rightarrow> (int list \<times> int list) list"
  running_window_over_days_of_year_use ::
    "int \<Rightarrow> int \<Rightarrow> nat list \<Rightarrow> int list \<Rightarrow> (nat \<times> nat list) list"
  get_indices_vals_in_window :: "int \<Rightarrow> int \<Rightarrow> nat list \<Rightarrow> nat \<Rightarrow> nat list"
  garbage :: "nat \<Rightarrow> real"

definition np_empty_like :: "'a utils_scheme \<Rightarrow> 'b list \<Rightarrow> real list" where
  "np_empty_like U x = map (garbage U) [0..<length x]"

text \<open>
  Modelled from the spec: \<^verbatim>\<open>utils.ecdf\<close> is not among the sources. The specification:
  the empirical CDF fitted on \<open>x\<close>, evaluated at the points \<open>y\<close>; \<open>step_function\<close> is the
  right-continuous step function at the order statistics of \<open>x\<close>,
  \<open>linear_interpolation\<close> is piecewise linear between the order statistics and the
  plotting positions \<open>i / (n - 1)\<close> and flat at 0 and 1 beyond the range; an empty
  sample is a fatal error. The kernel density estimator is a parameter.
\<close>

definition linspace01 :: "nat \<Rightarrow> real list" where
  "linspace01 n = map (\<lambda>i. real i / real (n - 1)) [0..<n]"

definition ecdf :: "'a utils_scheme \<Rightarrow> real list \<Rightarrow> real list \<Rightarrow> string \<Rightarrow> error + real list" where
  "ecdf U x y method =
     (if x = [] then Inl (ValueError Empty_sample)
      else if method = ''step_function''
        then Inr (map (\<lambda>v. real (length (filter (\<lambda>u. u \<le> v) x)) / real (length x)) y)
      else if method = ''linear_interpolation''
        then Inr (map (np_interp (sort x) (linspace01 (length x))) y)
      else ecdf_kernel_density U x y)"

text \<open>
  Modelled from the spec: \<^verbatim>\<open>utils.iecdf\<close> is not among the sources. The specification:
  the quantile function of \<open>x\<close> at the probabilities \<open>p\<close>, by one of nine estimators of
  the standard family; an empty sample is a fatal error. The estimator \<open>linear\<close> is the
  one of \<^verbatim>\<open>np.quantile\<close>: with the sorted sample \<open>x\<^sub>0 \<dots> x\<^sub>n\<^sub>-\<^sub>1\<close> and
  \<open>h = p \<cdot> (n - 1)\<close> it interpolates between \<open>x\<^bsub>floor h\<^esub>\<close> and its successor, and
  like \<^verbatim>\<open>np.quantile\<close> it refuses a probability outside \<open>[0, 1]\<close>. The other eight
  estimators are a parameter.
\<close>

definition quantile_linear :: "real list \<Rightarrow> real \<Rightarrow> real" where
  "quantile_linear xs q =
     (let n = length xs; h = q * real (n - 1); j = nat \<lfloor>h\<rfloor>
      in xs ! j + (h - real j) * (xs ! (min (j + 1) (n - 1)) - xs ! j))"

definition iecdf :: "'a utils_scheme \<Rightarrow> real list \<Rightarrow> real list \<Rightarrow> string \<Rightarrow> error + real list" where
  "iecdf U x p method =
     (if x = [] then Inl (ValueError Empty_sample)
      else if method = ''linear''
        then (if list_ex (\<lambda>q. q < 0 \<or> 1 < q) p then Inl (ValueError Quantile_out_of_range)
              else Inr (map (quantile_linear (sort x)) p))
      else iecdf_other U method x p)"

text \<open>
  Modelled from the spec: \<^verbatim>\<open>utils.infer_and_create_time_arrays_if_not_given\<close> and
  \<^verbatim>\<open>utils.create_array_of_consecutive_dates\<close> are not among the sources. The
  specification: a date sequence that is omitted is synthesized by assuming that the
  first sample falls on January 1 and advancing one day per sample. A date sequence
  that is given is kept, as the name of the function says.
\<close>

definition create_array_of_consecutive_dates :: "'a utils_scheme \<Rightarrow> nat \<Rightarrow> time list" where
  "create_array_of_consecutive_dates U n = map (\<lambda>k. january_1st U + int k) [0..<n]"

definition infer_and_create_time_arrays_if_not_given ::
  "'a utils_scheme \<Rightarrow> real list \<Rightarrow> real list \<Rightarrow> real list
     \<Rightarrow> time list option \<Rightarrow> time list option \<Rightarrow> time list option
     \<Rightarrow> time list \<times> time list \<times> time list" where
  "infer_and_create_time_arrays_if_not_given U obs cm_hist cm_future
       time_obs time_cm_hist time_cm_future =
     ((case time_obs of None \<Rightarrow> create_array_of_consecutive_dates U (length obs) | Some t \<Rightarrow> t),
      (case time_cm_hist of None \<Rightarrow> create_array_of_consecutive_dates U (length cm_hist)
         | Some t \<Rightarrow> t),
      (case time_cm_future of None \<Rightarrow> create_array_of_consecutive_dates U (length cm_future)
         | Some t \<Rightarrow> t))"

text \<open>
  Modelled from the spec: \<^verbatim>\<open>RunningWindowOverYears.get_if_in_chosen_years\<close> is not among
  the sources. By its name and its use it is the mask of the years that are among the
  chosen ones.
\<close>

definition get_if_in_chosen_years :: "int list \<Rightarrow> int list \<Rightarrow> bool list" where
  "get_if_in_chosen_years years chosen_years = map (\<lambda>y. List.member chosen_years y) years"

text \<open>
  The first statement of each of the three \<^verbatim>\<open>apply_location\<close>: if one of the three
  date sequences is \<^verbatim>\<open>None\<close>, a warning is logged and the date sequences are inferred.
  The warning does not change the result and is left out.
\<close>

definition time_arrays_given_or_inferred ::
  "'a utils_scheme \<Rightarrow> real list \<Rightarrow> real list \<Rightarrow> real list
     \<Rightarrow> time list option \<Rightarrow> time list option \<Rightarrow> time list option
     \<Rightarrow> time list \<times> time list \<times> time list" where
  "time_arrays_given_or_inferred U obs cm_hist cm_future time_obs time_cm_hist time_cm_future =
     (if time_obs = None \<or> time_cm_hist = None \<or> time_cm_future = None
      then infer_and_create_time_arrays_if_not_given U obs cm_hist cm_future
             time_obs time_cm_hist time_cm_future
      else (the time_obs, the time_cm_hist, the time_cm_future))"

section \<open>CDFt\<close>

text \<open>
  The attributes of the class \<^verbatim>\<open>CDFt\<close>. The three strings are validated when the
  object is made; the functions below compare them as the source does.
\<close>

record cdft =
  SSR :: bool
  delta_shift :: string
  apply_by_month :: bool
  running_window_mode :: bool
  running_window_length_in_years :: int
  running_window_step_length_in_years :: int
  ecdf_method :: string
  iecdf_method :: string

text \<open>\<^verbatim>\<open>CDFt._check_time_information_and_raise_error\<close>.\<close>

definition check_time_information_and_raise_error ::
  "'v list \<Rightarrow> 'v list \<Rightarrow> 'v list \<Rightarrow> time list \<Rightarrow> time list \<Rightarrow> time list \<Rightarrow> error + unit" where
  "check_time_information_and_raise_error obs cm_hist cm_future
       time_obs time_cm_hist time_cm_future =
     (if length obs \<noteq> length time_obs \<or> length cm_hist \<noteq> length time_cm_hist
         \<or> length cm_future \<noteq> length time_cm_future
      then Inl (ValueError Time_information_check)
      else Inr ())"

text \<open>
  \<^verbatim>\<open>CDFt._apply_CDFt_mapping\<close>: the delta shift, then the composition of the four
  empirical mappings. \<^verbatim>\<open>np.mean\<close> of an empty array and a division by a zero mean give
  NaN or an infinity in numpy and raise nothing; they have no counterpart here.
\<close>

definition apply_CDFt_mapping ::
  "'a utils_scheme \<Rightarrow> 'b cdft_scheme \<Rightarrow> real list \<Rightarrow> real list \<Rightarrow> real list
     \<Rightarrow> error + real list" where
  "apply_CDFt_mapping U cfg obs cm_hist cm_future =
     bind
       (if delta_shift cfg = ''additive''
          then (let shift = mean obs - mean cm_hist
                in Inr (map (\<lambda>v. v + shift) cm_hist, map (\<lambda>v. v + shift) cm_future))
        else if delta_shift cfg = ''multiplicative''
          then (let shift = mean obs / mean cm_hist
                in Inr (map (\<lambda>v. v * shift) cm_hist, map (\<lambda>v. v * shift) cm_future))
        else if delta_shift cfg = ''no_shift''
          then Inr (cm_hist, cm_future)
        else Inl (ValueError Delta_shift_check))
       (\<lambda>(cm_hist, cm_future).
          bind (ecdf U cm_future cm_future (ecdf_method cfg)) (\<lambda>p1.
          bind (iecdf U obs p1 (iecdf_method cfg)) (\<lambda>q.
          bind (ecdf U cm_hist q (ecdf_method cfg)) (\<lambda>p2.
          iecdf U cm_future p2 (iecdf_method cfg)))))"

text \<open>
  \<^verbatim>\<open>CDFt._get_threshold\<close>: \<^verbatim>\<open>min\<close> of the three minima \<^verbatim>\<open>x[x > 0].min()\<close>. The
  method \<^verbatim>\<open>min\<close> of an empty numpy array raises \<^verbatim>\<open>ValueError\<close> (a zero-size array has no
  minimum).
\<close>

definition positive_min :: "real list \<Rightarrow> error + real" where
  "positive_min x =
     (case filter (\<lambda>v. 0 < v) x of
        [] \<Rightarrow> Inl (ValueError Zero_size_reduction)
      | v # vs \<Rightarrow> Inr (Min (set (v # vs))))"

definition get_threshold :: "real list \<Rightarrow> real list \<Rightarrow> real list \<Rightarrow> error + real" where
  "get_threshold obs cm_hist cm_future =
     bind (positive_min obs) (\<lambda>a.
     bind (positive_min cm_hist) (\<lambda>b.
     bind (positive_min cm_future) (\<lambda>c.
     Inr (min a (min b c)))))"

text \<open>
  \<^verbatim>\<open>CDFt._randomize_zero_values_between_zero_and_threshold\<close>: as many draws as the
  array is long are taken from the global generator, whatever the number of zeros; the
  draw at the position of a zero replaces it.
\<close>

definition randomize_zero_values_between_zero_and_threshold ::
  "rng \<Rightarrow> real list \<Rightarrow> real \<Rightarrow> real list \<times> rng" where
  "randomize_zero_values_between_zero_and_threshold g x threshold =
     (let (draws, g') = np_random_uniform g 0 threshold (length x)
      in (map2 (\<lambda>v d. if v = 0 then d else v) x draws, g'))"

definition set_values_below_threshold_to_zero :: "real list \<Rightarrow> real \<Rightarrow> real list" where
  "set_values_below_threshold_to_zero x threshold = map (\<lambda>v. if v < threshold then 0 else v) x"

definition apply_SSR_steps_before_adjustment ::
  "rng \<Rightarrow> real list \<Rightarrow> real list \<Rightarrow> real list
     \<Rightarrow> error + (real list \<times> real list \<times> real list \<times> real \<times> rng)" where
  "apply_SSR_steps_before_adjustment g obs cm_hist cm_future =
     bind (get_threshold obs cm_hist cm_future) (\<lambda>threshold.
       let (obs', g1) = randomize_zero_values_between_zero_and_threshold g obs threshold;
           (cm_hist', g2) = randomize_zero_values_between_zero_and_threshold g1 cm_hist threshold;
           (cm_future', g3) =
              randomize_zero_values_between_zero_and_threshold g2 cm_future threshold
       in Inr (obs', cm_hist', cm_future', threshold, g3))"

definition apply_SSR_steps_after_adjustment :: "real list \<Rightarrow> real \<Rightarrow> real list" where
  "apply_SSR_steps_after_adjustment cm_future threshold =
     set_values_below_threshold_to_zero cm_future threshold"

text \<open>
  \<^verbatim>\<open>CDFt._apply_on_month_and_window\<close>, the computation on one chunk. It returns the
  mapped values and the state in which it leaves the global generator.
\<close>

definition apply_on_month_and_window ::
  "'a utils_scheme \<Rightarrow> 'b cdft_scheme \<Rightarrow> rng \<Rightarrow> real list \<Rightarrow> real list \<Rightarrow> real list
     \<Rightarrow> error + (real list \<times> rng)" where
  "apply_on_month_and_window U cfg g obs cm_hist cm_future =
     (if SSR cfg
      then bind (apply_SSR_steps_before_adjustment g obs cm_hist cm_future)
             (\<lambda>(obs', cm_hist', cm_future', threshold, g').
                bind (apply_CDFt_mapping U cfg obs' cm_hist' cm_future') (\<lambda>mapped.
                Inr (apply_SSR_steps_after_adjustment mapped threshold, g')))
      else bind (apply_CDFt_mapping U cfg obs cm_hist cm_future) (\<lambda>mapped. Inr (mapped, g)))"

text \<open>
  \<^verbatim>\<open>CDFt._apply_on_window\<close>. With \<open>apply_by_month\<close> the loop runs over the months 1 to
  12; each turn selects the samples of the month, debiases them and writes them to
  their positions in an array that starts uninitialised.
\<close>

fun apply_by_month_loop ::
  "'a utils_scheme \<Rightarrow> 'b cdft_scheme \<Rightarrow> real list \<Rightarrow> real list \<Rightarrow> real list
     \<Rightarrow> time list \<Rightarrow> time list \<Rightarrow> time list
     \<Rightarrow> nat list \<Rightarrow> real list \<Rightarrow> rng \<Rightarrow> error + (real list \<times> rng)" where
  "apply_by_month_loop U cfg obs cm_hist cm_future time_obs time_cm_hist time_cm_future
       [] debiased_cm_future g = Inr (debiased_cm_future, g)"
| "apply_by_month_loop U cfg obs cm_hist cm_future time_obs time_cm_hist time_cm_future
       (i_month # months) debiased_cm_future g =
     (let mask_i_month_in_obs_hist = map (\<lambda>t. month U t = i_month) time_obs;
          mask_i_month_in_cm_hist = map (\<lambda>t. month U t = i_month) time_cm_hist;
          mask_i_month_in_cm_future = map (\<lambda>t. month U t = i_month) time_cm_future
      in bind (mask_select obs mask_i_month_in_obs_hist) (\<lambda>obs_m.
         bind (mask_select cm_hist mask_i_month_in_cm_hist) (\<lambda>cm_hist_m.
         bind (mask_select cm_future mask_i_month_in_cm_future) (\<lambda>cm_future_m.
         bind (apply_on_month_and_window U cfg g obs_m cm_hist_m cm_future_m) (\<lambda>(vals, g').
         bind (mask_assign debiased_cm_future mask_i_month_in_cm_future vals) (\<lambda>debiased'.
         apply_by_month_loop U cfg obs cm_hist cm_future time_obs time_cm_hist time_cm_future
           months debiased' g'))))))"

definition apply_on_window ::
  "'a utils_scheme \<Rightarrow> 'b cdft_scheme \<Rightarrow> rng \<Rightarrow> real list \<Rightarrow> real list \<Rightarrow> real list
     \<Rightarrow> time list \<Rightarrow> time list \<Rightarrow> time list \<Rightarrow> error + (real list \<times> rng)" where
  "apply_on_window U cfg g obs cm_hist cm_future time_obs time_cm_hist time_cm_future =
     (if apply_by_month cfg
      then apply_by_month_loop U cfg obs cm_hist cm_future time_obs time_cm_hist time_cm_future
             [1..<13] (np_empty_like U cm_future) g
      else apply_on_month_and_window U cfg g obs cm_hist cm_future)"

text \<open>
  \<^verbatim>\<open>CDFt.apply_location\<close>. In running window mode the loop runs over the pairs
  (years to debias, years in the window) that the running window yields for the years
  of \<open>cm_future\<close>.
\<close>

fun running_window_loop ::
  "'a utils_scheme \<Rightarrow> 'b cdft_scheme \<Rightarrow> real list \<Rightarrow> real list \<Rightarrow> real list
     \<Rightarrow> time list \<Rightarrow> time list \<Rightarrow> time list \<Rightarrow> int list
     \<Rightarrow> (int list \<times> int list) list \<Rightarrow> real list \<Rightarrow> rng \<Rightarrow> error + (real list \<times> rng)" where
  "running_window_loop U cfg obs cm_hist cm_future time_obs time_cm_hist time_cm_future
       years_cm_future [] debiased_cm_future g = Inr (debiased_cm_future, g)"
| "running_window_loop U cfg obs cm_hist cm_future time_obs time_cm_hist time_cm_future
       years_cm_future ((years_to_debias, years_in_window) # windows) debiased_cm_future g =
     (let mask_years_in_window = get_if_in_chosen_years years_cm_future years_in_window;
          mask_years_to_debias = get_if_in_chosen_years years_cm_future years_to_debias
      in bind (mask_select years_cm_future mask_years_in_window) (\<lambda>years_w.
         let mask_years_in_window_to_debias = get_if_in_chosen_years years_w years_to_debias
         in bind (mask_select cm_future mask_years_in_window) (\<lambda>cm_future_w.
            bind (mask_select time_cm_future mask_years_in_window) (\<lambda>time_cm_future_w.
            bind (apply_on_window U cfg g obs cm_hist cm_future_w
                    time_obs time_cm_hist time_cm_future_w) (\<lambda>(mapped, g').
            bind (mask_select mapped mask_years_in_window_to_debias) (\<lambda>vals.
            bind (mask_assign debiased_cm_future mask_years_to_debias vals) (\<lambda>debiased'.
            running_window_loop U cfg obs cm_hist cm_future time_obs time_cm_hist
              time_cm_future years_cm_future windows debiased' g')))))))"

definition apply_location ::
  "'a utils_scheme \<Rightarrow> 'b cdft_scheme \<Rightarrow> rng \<Rightarrow> real list \<Rightarrow> real list \<Rightarrow> real list
     \<Rightarrow> time list option \<Rightarrow> time list option \<Rightarrow> time list option
     \<Rightarrow> error + (real list \<times> rng)" where
  "apply_location U cfg g obs cm_hist cm_future time_obs time_cm_hist time_cm_future =
     (let (time_obs, time_cm_hist, time_cm_future) =
            time_arrays_given_or_inferred U obs cm_hist cm_future
              time_obs time_cm_hist time_cm_future
      in bind (check_time_information_and_raise_error obs cm_hist cm_future
                 time_obs time_cm_hist time_cm_future) (\<lambda>_.
         if running_window_mode cfg
         then (let years_cm_future = map (year U) time_cm_future
               in running_window_loop U cfg obs cm_hist cm_future
                    time_obs time_cm_hist time_cm_future years_cm_future
                    (running_window_over_years_use U (running_window_length_in_years cfg)
                       (running_window_step_length_in_years cfg) years_cm_future)
                    (np_empty_like U cm_future) g)
         else apply_on_window U cfg g obs cm_hist cm_future
                time_obs time_cm_hist time_cm_future))"

section \<open>QuantileDeltaMapping\<close>

text \<open>
  The distribution object of scipy (or a \<^verbatim>\<open>StatisticalModel\<close>): \<^verbatim>\<open>fit\<close> returns the
  parameters, of a type \<open>'p\<close>, or raises; \<^verbatim>\<open>cdf\<close> and \<^verbatim>\<open>ppf\<close> work on each entry of
  an array. It is a parameter of the model.
\<close>

record 'p distribution =
  fit :: "real list \<Rightarrow> error + 'p"
  cdf :: "'p \<Rightarrow> real \<Rightarrow> real"
  ppf :: "'p \<Rightarrow> real \<Rightarrow> real"

text \<open>
  The attributes of the class \<^verbatim>\<open>QuantileDeltaMapping\<close>. \<open>cdf_threshold\<close> is a float
  once the object is made: a missing one is replaced then.
\<close>

record qdm =
  trend_preservation :: string
  censor_values_to_zero :: bool
  censoring_threshold :: real
  running_window_mode_over_years_of_cm_future :: bool
  running_window_over_years_of_cm_future_length :: int
  running_window_over_years_of_cm_future_step_length :: int
  running_window_mode_within_year :: bool
  running_window_within_year_length :: int
  running_window_within_year_step_length :: int
  qdm_ecdf_method :: string
  cdf_threshold :: real

text \<open>
  Modelled from the spec: \<^verbatim>\<open>utils.threshold_cdf_vals\<close> is not among the sources. The
  specification: it clamps probabilities into \<open>[cdf_threshold, 1 - cdf_threshold]\<close>.
\<close>

definition threshold_cdf_vals :: "real list \<Rightarrow> real \<Rightarrow> real list" where
  "threshold_cdf_vals cdf_vals thr = map (\<lambda>p. max thr (min (1 - thr) p)) cdf_vals"

text \<open>
  \<^verbatim>\<open>QuantileDeltaMapping._apply_debiasing_steps\<close>. The arithmetic of numpy on two arrays
  of different lengths raises \<^verbatim>\<open>ValueError\<close>, unless one of them has one entry; the
  estimators of the empirical CDF return one value for each entry of \<open>y\<close>.
\<close>

definition apply_debiasing_steps ::
  "'a utils_scheme \<Rightarrow> ('p, 'c) distribution_scheme \<Rightarrow> 'b qdm_scheme
     \<Rightarrow> real list \<Rightarrow> 'p \<Rightarrow> 'p \<Rightarrow> error + real list" where
  "apply_debiasing_steps U D cfg cm_future fit_obs fit_cm_hist =
     bind (ecdf U cm_future cm_future (qdm_ecdf_method cfg)) (\<lambda>e.
       let tau_t = threshold_cdf_vals e (cdf_threshold cfg)
       in if length tau_t \<noteq> length cm_future then Inl (ValueError Broadcast_shape)
          else
            bind
              (if trend_preservation cfg = ''absolute''
                 then Inr (map2 (\<lambda>v t. v + ppf D fit_obs t - ppf D fit_cm_hist t) cm_future tau_t)
               else if trend_preservation cfg = ''relative''
                 then Inr (map2 (\<lambda>v t. v * ppf D fit_obs t / ppf D fit_cm_hist t) cm_future tau_t)
               else Inl (ValueError Trend_preservation_check))
              (\<lambda>bias_corrected_vals.
                 Inr (if censor_values_to_zero cfg
                      then map (\<lambda>v. if v < censoring_threshold cfg then 0 else v)
                             bias_corrected_vals
                      else bias_corrected_vals)))"

definition get_obs_and_cm_hist_fits ::
  "('p, 'c) distribution_scheme \<Rightarrow> real list \<Rightarrow> real list \<Rightarrow> error + ('p \<times> 'p)" where
  "get_obs_and_cm_hist_fits D obs cm_hist =
     bind (fit D obs) (\<lambda>fit_obs. bind (fit D cm_hist) (\<lambda>fit_cm_hist.
     Inr (fit_obs, fit_cm_hist)))"

text \<open>
  \<^verbatim>\<open>QuantileDeltaMapping._apply_on_within_year_window\<close>, with its loop over the windows
  of years of \<open>cm_future\<close>.
\<close>

fun qdm_years_loop ::
  "'a utils_scheme \<Rightarrow> ('p, 'c) distribution_scheme \<Rightarrow> 'b qdm_scheme \<Rightarrow> real list \<Rightarrow> int list
     \<Rightarrow> 'p \<Rightarrow> 'p \<Rightarrow> (int list \<times> int list) list \<Rightarrow> real list \<Rightarrow> error + real list" where
  "qdm_years_loop U D cfg cm_future years_cm_future fit_obs fit_cm_hist [] debiased_cm_future =
     Inr debiased_cm_future"
| "qdm_years_loop U D cfg cm_future years_cm_future fit_obs fit_cm_hist
       ((years_to_debias, years_in_window) # windows) debiased_cm_future =
     (let mask_years_in_window = get_if_in_chosen_years years_cm_future years_in_window;
          mask_years_to_debias = get_if_in_chosen_years years_cm_future years_to_debias
      in bind (mask_select years_cm_future mask_years_in_window) (\<lambda>years_w.
         let mask_years_in_window_to_debias = get_if_in_chosen_years years_w years_to_debias
         in bind (mask_select cm_future mask_years_in_window) (\<lambda>cm_future_w.
            bind (apply_debiasing_steps U D cfg cm_future_w fit_obs fit_cm_hist) (\<lambda>mapped.
            bind (mask_select mapped mask_years_in_window_to_debias) (\<lambda>vals.
            bind (mask_assign debiased_cm_future mask_years_to_debias vals) (\<lambda>debiased'.
            qdm_years_loop U D cfg cm_future years_cm_future fit_obs fit_cm_hist
              windows debiased'))))))"

definition apply_on_within_year_window ::
  "'a utils_scheme \<Rightarrow> ('p, 'c) distribution_scheme \<Rightarrow> 'b qdm_scheme
     \<Rightarrow> real list \<Rightarrow> real list \<Rightarrow> real list \<Rightarrow> int list \<Rightarrow> error + real list" where
  "apply_on_within_year_window U D cfg obs cm_hist cm_future years_cm_future =
     bind (get_obs_and_cm_hist_fits D obs cm_hist) (\<lambda>(fit_obs, fit_cm_hist).
       if running_window_mode_over_years_of_cm_future cfg
       then qdm_years_loop U D cfg cm_future years_cm_future fit_obs fit_cm_hist
              (running_window_over_years_use U
                 (running_window_over_years_of_cm_future_length cfg)
                 (running_window_over_years_of_cm_future_step_length cfg) years_cm_future)
              (np_empty_like U cm_future)
       else apply_debiasing_steps U D cfg cm_future fit_obs fit_cm_hist)"

text \<open>
  \<^verbatim>\<open>QuantileDeltaMapping.apply_location\<close>. In the running window mode within the year
  the loop runs over the pairs (window centre, indices of the values to correct) that
  the running window yields; the result array starts filled with zeros.
\<close>

fun qdm_within_year_loop ::
  "'a utils_scheme \<Rightarrow> ('p, 'c) distribution_scheme \<Rightarrow> 'b qdm_scheme
     \<Rightarrow> real list \<Rightarrow> real list \<Rightarrow> real list \<Rightarrow> nat list \<Rightarrow> nat list \<Rightarrow> nat list \<Rightarrow> int list
     \<Rightarrow> (nat \<times> nat list) list \<Rightarrow> real list \<Rightarrow> error + real list" where
  "qdm_within_year_loop U D cfg obs cm_hist cm_future days_of_year_obs days_of_year_cm_hist
       days_of_year_cm_future years_cm_future [] debiased_cm_future = Inr debiased_cm_future"
| "qdm_within_year_loop U D cfg obs cm_hist cm_future days_of_year_obs days_of_year_cm_hist
       days_of_year_cm_future years_cm_future
       ((window_center, indices_bias_corrected_values) # windows) debiased_cm_future =
     (let in_window = get_indices_vals_in_window U (running_window_within_year_length cfg)
                        (running_window_within_year_step_length cfg);
          indices_window_obs = in_window days_of_year_obs window_center;
          indices_window_cm_hist = in_window days_of_year_cm_hist window_center;
          indices_window_cm_future = in_window days_of_year_cm_future window_center
      in bind (index_select obs indices_window_obs) (\<lambda>obs_w.
         bind (index_select cm_hist indices_window_cm_hist) (\<lambda>cm_hist_w.
         bind (index_select cm_future indices_window_cm_future) (\<lambda>cm_future_w.
         bind (index_select years_cm_future indices_window_cm_future) (\<lambda>years_w.
         bind (apply_on_within_year_window U D cfg obs_w cm_hist_w cm_future_w years_w)
           (\<lambda>mapped.
         bind (mask_select mapped
                 (np_in1d indices_window_cm_future indices_bias_corrected_values)) (\<lambda>vals.
         bind (index_assign debiased_cm_future indices_bias_corrected_values vals)
           (\<lambda>debiased'.
         qdm_within_year_loop U D cfg obs cm_hist cm_future days_of_year_obs
           days_of_year_cm_hist days_of_year_cm_future years_cm_future windows
           debiased'))))))))"

definition qdm_apply_location ::
  "'a utils_scheme \<Rightarrow> ('p, 'c) distribution_scheme \<Rightarrow> 'b qdm_scheme
     \<Rightarrow> real list \<Rightarrow> real list \<Rightarrow> real list
     \<Rightarrow> time list option \<Rightarrow> time list option \<Rightarrow> time list option \<Rightarrow> error + real list" where
  "qdm_apply_location U D cfg obs cm_hist cm_future time_obs time_cm_hist time_cm_future =
     (let (time_obs, time_cm_hist, time_cm_future) =
            time_arrays_given_or_inferred U obs cm_hist cm_future
              time_obs time_cm_hist time_cm_future
      in bind (check_time_information_and_raise_error obs cm_hist cm_future
                 time_obs time_cm_hist time_cm_future) (\<lambda>_.
         let years_cm_future = map (year U) time_cm_future
         in if running_window_mode_within_year cfg
            then (let days_of_year_obs = map (day_of_year U) time_obs;
                      days_of_year_cm_hist = map (day_of_year U) time_cm_hist;
                      days_of_year_cm_future = map (day_of_year U) time_cm_future
                  in qdm_within_year_loop U D cfg obs cm_hist cm_future days_of_year_obs
                       days_of_year_cm_hist days_of_year_cm_future years_cm_future
                       (running_window_over_days_of_year_use U
                          (running_window_within_year_length cfg)
                          (running_window_within_year_step_length cfg)
                          days_of_year_cm_future years_cm_future)
                       (replicate (length cm_future) 0))
            else apply_on_within_year_window U D cfg obs cm_hist cm_future years_cm_future))"

section \<open>Floats with infinities\<close>

text \<open>
  The bounds and thresholds of ISIMIP are floats whose defaults and \<open>not set\<close> values are
  \<^verbatim>\<open>np.inf\<close> and \<^verbatim>\<open>-np.inf\<close>, and step 6 writes a bound into the array. Such values are
  of type \<open>fl\<close>: a finite float, idealised as a real, or one of the two infinities, in
  the order of the floats. NaN is not modelled.
\<close>

datatype fl = NInf | Fin real | PInf

fun fl_le :: "fl \<Rightarrow> fl \<Rightarrow> bool" where
  "fl_le NInf _ = True"
| "fl_le (Fin a) (Fin b) = (a \<le> b)"
| "fl_le (Fin _) PInf = True"
| "fl_le PInf PInf = True"
| "fl_le _ _ = False"

instantiation fl :: linorder
begin

definition less_eq_fl :: "fl \<Rightarrow> fl \<Rightarrow> bool" where
  "less_eq_fl x y = fl_le x y"

definition less_fl :: "fl \<Rightarrow> fl \<Rightarrow> bool" where
  "less_fl x y = (fl_le x y \<and> \<not> fl_le y x)"

instance
proof
  fix x y z :: fl
  show "(x < y) = (x \<le> y \<and> \<not> y \<le> x)"
    by (simp add: less_fl_def less_eq_fl_def)
  show "x \<le> x"
    by (cases x) (simp_all add: less_eq_fl_def)
  show "x \<le> y \<Longrightarrow> y \<le> z \<Longrightarrow> x \<le> z"
    by (cases x; cases y; cases z) (simp_all add: less_eq_fl_def)
  show "x \<le> y \<Longrightarrow> y \<le> x \<Longrightarrow> x = y"
    by (cases x; cases y) (simp_all add: less_eq_fl_def)
  show "x \<le> y \<or> y \<le> x"
    by (cases x; cases y) (auto simp add: less_eq_fl_def)
qed

end

section \<open>ISIMIP: the configuration\<close>

text \<open>
  The attributes of the class \<^verbatim>\<open>ISIMIP\<close> that the functions modelled below read. The
  distribution object, the trend preservation method of step 5, the switches of the
  quantile mapping of step 6 and the window lengths are read only by functions that are
  parameters of this model.
\<close>

record isimip =
  detrending :: bool
  reasonable_physical_range :: "(real \<times> real) option"
  lower_bound :: fl
  lower_threshold :: fl
  upper_bound :: fl
  upper_threshold :: fl
  impute_missing_values :: bool
  trend_removal_with_significance_test :: bool
  adjust_frequencies_of_values_beyond_thresholds :: bool
  isimip_iecdf_method :: string
  isimip_running_window_mode :: bool
  running_window_length :: int
  running_window_step_length :: int

definition has_lower_threshold :: "'a isimip_scheme \<Rightarrow> bool" where
  "has_lower_threshold cfg = (NInf < lower_threshold cfg)"


definition has_upper_threshold :: "'a isimip_scheme \<Rightarrow> bool" where
  "has_upper_threshold cfg = (upper_threshold cfg < PInf)"


definition get_mask_for_values_beyond_lower_threshold :: "'a isimip_scheme \<Rightarrow> fl list \<Rightarrow> bool list" where
  "get_mask_for_values_beyond_lower_threshold cfg x = map (\<lambda>v. v \<le> lower_threshold cfg) x"

definition get_mask_for_values_beyond_upper_threshold :: "'a isimip_scheme \<Rightarrow> fl list \<Rightarrow> bool list" where
  "get_mask_for_values_beyond_upper_threshold cfg x = map (\<lambda>v. upper_threshold cfg \<le> v) x"

definition get_mask_for_values_between_thresholds :: "'a isimip_scheme \<Rightarrow> fl list \<Rightarrow> bool list" where
  "get_mask_for_values_between_thresholds cfg x =
     map (\<lambda>v. lower_threshold cfg < v \<and> v < upper_threshold cfg) x"

definition get_values_between_thresholds :: "'a isimip_scheme \<Rightarrow> fl list \<Rightarrow> fl list" where
  "get_values_between_thresholds cfg x =
     map fst (filter snd (zip x (get_mask_for_values_between_thresholds cfg x)))"

section \<open>ISIMIP: \<^verbatim>\<open>apply_location\<close>\<close>

text \<open>\<^verbatim>\<open>ISIMIP._check_reasonable_physical_range\<close>.\<close>

definition check_reasonable_physical_range ::
  "'a isimip_scheme \<Rightarrow> real list \<Rightarrow> real list \<Rightarrow> real list \<Rightarrow> error + unit" where
  "check_reasonable_physical_range cfg obs_hist cm_hist cm_future =
     (case reasonable_physical_range cfg of
        None \<Rightarrow> Inr ()
      | Some (lo, hi) \<Rightarrow>
          if list_ex (\<lambda>v. v < lo \<or> hi < v) obs_hist
            then Inl (ValueError Reasonable_physical_range_check)
          else if list_ex (\<lambda>v. v < lo \<or> hi < v) cm_hist
            then Inl (ValueError Reasonable_physical_range_check)
          else if list_ex (\<lambda>v. v < lo \<or> hi < v) cm_future
            then Inl (ValueError Reasonable_physical_range_check)
          else Inr ())"

text \<open>
  Of the steps that \<^verbatim>\<open>ISIMIP.apply_location\<close> calls, \<^verbatim>\<open>step1\<close>, \<^verbatim>\<open>step8\<close> and the
  steps 2 to 7 on one window, \<^verbatim>\<open>_apply_on_window\<close>, are parameters of its model, the
  fields of the record \<open>isimip_steps\<close>: they work with the filters of scipy and the
  distribution object. The steps 3 and 6, and the randomisation of the steps 2 and 4, are
  modelled on their own below. \<open>step1\<close> returns the three scaled series and the debiased
  annual cycle, which is \<^verbatim>\<open>None\<close> if the series are not scaled.
\<close>

record isimip_steps =
  step1 :: "real list \<Rightarrow> real list \<Rightarrow> real list \<Rightarrow> time list \<Rightarrow> time list \<Rightarrow> time list
              \<Rightarrow> error + (real list \<times> real list \<times> real list \<times> real list option)"
  isimip_apply_on_window ::
    "rng \<Rightarrow> real list \<Rightarrow> real list \<Rightarrow> real list \<Rightarrow> int list \<Rightarrow> int list \<Rightarrow> int list
       \<Rightarrow> error + (real list \<times> rng)"
  step8 :: "real list \<Rightarrow> real list option \<Rightarrow> time list \<Rightarrow> error + real list"

fun isimip_running_window_loop ::
  "'a utils_scheme \<Rightarrow> 'b isimip_scheme \<Rightarrow> 'c isimip_steps_scheme
     \<Rightarrow> real list \<Rightarrow> real list \<Rightarrow> real list \<Rightarrow> int list \<Rightarrow> int list \<Rightarrow> int list
     \<Rightarrow> nat list \<Rightarrow> nat list \<Rightarrow> nat list
     \<Rightarrow> (nat \<times> nat list) list \<Rightarrow> real list \<Rightarrow> rng \<Rightarrow> error + (real list \<times> rng)" where
  "isimip_running_window_loop U cfg S obs cm_hist cm_future years_obs years_cm_hist
       years_cm_future days_of_year_obs days_of_year_cm_hist days_of_year_cm_future
       [] debiased_cm_future g = Inr (debiased_cm_future, g)"
| "isimip_running_window_loop U cfg S obs cm_hist cm_future years_obs years_cm_hist
       years_cm_future days_of_year_obs days_of_year_cm_hist days_of_year_cm_future
       ((window_center, indices_bias_corrected_values) # windows) debiased_cm_future g =
     (let in_window = get_indices_vals_in_window U (running_window_length cfg)
                        (running_window_step_length cfg);
          indices_window_obs = in_window days_of_year_obs window_center;
          indices_window_cm_hist = in_window days_of_year_cm_hist window_center;
          indices_window_cm_future = in_window days_of_year_cm_future window_center
      in bind (index_select obs indices_window_obs) (\<lambda>obs_w.
         bind (index_select cm_hist indices_window_cm_hist) (\<lambda>cm_hist_w.
         bind (index_select cm_future indices_window_cm_future) (\<lambda>cm_future_w.
         bind (index_select years_obs indices_window_obs) (\<lambda>years_obs_w.
         bind (index_select years_cm_hist indices_window_cm_hist) (\<lambda>years_cm_hist_w.
         bind (index_select years_cm_future indices_window_cm_future) (\<lambda>years_cm_future_w.
         bind (isimip_apply_on_window S g obs_w cm_hist_w cm_future_w
                 years_obs_w years_cm_hist_w years_cm_future_w) (\<lambda>(mapped, g').
         bind (mask_select mapped
                 (np_in1d indices_window_cm_future indices_bias_corrected_values)) (\<lambda>vals.
         bind (index_assign debiased_cm_future indices_bias_corrected_values vals)
           (\<lambda>debiased'.
         isimip_running_window_loop U cfg S obs cm_hist cm_future years_obs years_cm_hist
           years_cm_future days_of_year_obs days_of_year_cm_hist days_of_year_cm_future
           windows debiased' g'))))))))))"

fun isimip_month_loop ::
  "'c isimip_steps_scheme
     \<Rightarrow> real list \<Rightarrow> real list \<Rightarrow> real list \<Rightarrow> int list \<Rightarrow> int list \<Rightarrow> int list
     \<Rightarrow> nat list \<Rightarrow> nat list \<Rightarrow> nat list
     \<Rightarrow> nat list \<Rightarrow> real list \<Rightarrow> rng \<Rightarrow> error + (real list \<times> rng)" where
  "isimip_month_loop S obs cm_hist cm_future years_obs years_cm_hist years_cm_future
       months_obs months_cm_hist months_cm_future [] debiased_cm_future g =
     Inr (debiased_cm_future, g)"
| "isimip_month_loop S obs cm_hist cm_future years_obs years_cm_hist years_cm_future
       months_obs months_cm_hist months_cm_future (i_month # months) debiased_cm_future g =
     (let mask_i_month_in_obs = map (\<lambda>m. m = i_month) months_obs;
          mask_i_month_in_cm_hist = map (\<lambda>m. m = i_month) months_cm_hist;
          mask_i_month_in_cm_future = map (\<lambda>m. m = i_month) months_cm_future
      in bind (mask_select obs mask_i_month_in_obs) (\<lambda>obs_m.
         bind (mask_select cm_hist mask_i_month_in_cm_hist) (\<lambda>cm_hist_m.
         bind (mask_select cm_future mask_i_month_in_cm_future) (\<lambda>cm_future_m.
         bind (mask_select years_obs mask_i_month_in_obs) (\<lambda>years_obs_m.
         bind (mask_select years_cm_hist mask_i_month_in_cm_hist) (\<lambda>years_cm_hist_m.
         bind (mask_select years_cm_future mask_i_month_in_cm_future) (\<lambda>years_cm_future_m.
         bind (isimip_apply_on_window S g obs_m cm_hist_m cm_future_m
                 years_obs_m years_cm_hist_m years_cm_future_m) (\<lambda>(vals, g').
         bind (mask_assign debiased_cm_future mask_i_month_in_cm_future vals) (\<lambda>debiased'.
         isimip_month_loop S obs cm_hist cm_future years_obs years_cm_hist years_cm_future
           months_obs months_cm_hist months_cm_future months debiased' g')))))))))"

definition isimip_apply_location ::
  "'a utils_scheme \<Rightarrow> 'b isimip_scheme \<Rightarrow> 'c isimip_steps_scheme \<Rightarrow> rng
     \<Rightarrow> real list \<Rightarrow> real list \<Rightarrow> real list
     \<Rightarrow> time list option \<Rightarrow> time list option \<Rightarrow> time list option
     \<Rightarrow> error + (real list \<times> rng)" where
  "isimip_apply_location U cfg S g obs cm_hist cm_future time_obs time_cm_hist time_cm_future =
     bind (check_reasonable_physical_range cfg obs cm_hist cm_future) (\<lambda>_.
       let (time_obs, time_cm_hist, time_cm_future) =
             time_arrays_given_or_inferred U obs cm_hist cm_future
               time_obs time_cm_hist time_cm_future
       in bind (check_time_information_and_raise_error obs cm_hist cm_future
                  time_obs time_cm_hist time_cm_future) (\<lambda>_.
          let years_obs = map (year U) time_obs;
              years_cm_hist = map (year U) time_cm_hist;
              years_cm_future = map (year U) time_cm_future
          in bind (step1 S obs cm_hist cm_future time_obs time_cm_hist time_cm_future)
               (\<lambda>(obs, cm_hist, cm_future, debiased_annual_cycle).
             bind (if isimip_running_window_mode cfg
                   then (let days_of_year_obs = map (day_of_year U) time_obs;
                             days_of_year_cm_hist = map (day_of_year U) time_cm_hist;
                             days_of_year_cm_future = map (day_of_year U) time_cm_future
                         in isimip_running_window_loop U cfg S obs cm_hist cm_future
                              years_obs years_cm_hist years_cm_future days_of_year_obs
                              days_of_year_cm_hist days_of_year_cm_future
                              (running_window_over_days_of_year_use U
                                 (running_window_length cfg) (running_window_step_length cfg)
                                 days_of_year_cm_future years_cm_future)
                              (replicate (length cm_future) 0) g)
                   else isimip_month_loop S obs cm_hist cm_future
                          years_obs years_cm_hist years_cm_future
                          (map (month U) time_obs) (map (month U) time_cm_hist)
                          (map (month U) time_cm_future)
                          [1..<13] (replicate (length cm_future) 0) g)
               (\<lambda>(debiased_cm_future, g').
             bind (step8 S debiased_cm_future debiased_annual_cycle time_cm_future)
               (\<lambda>debiased_cm_future. Inr (debiased_cm_future, g'))))))"

section \<open>ISIMIP, step 3: removing the linear trend\<close>

text \<open>
  Modelled from the spec: \<^verbatim>\<open>utils.get_years_and_yearly_means\<close> is not among the sources.
  The specification has step 3 regress the annual means against the year: the function
  returns the distinct years in increasing order and, for each, the mean of the samples
  of that year.
\<close>

definition get_years_and_yearly_means :: "real list \<Rightarrow> int list \<Rightarrow> int list \<times> real list" where
  "get_years_and_yearly_means x years =
     (let unique_years = np_unique years
      in (unique_years,
          map (\<lambda>unique_year. mean (map fst (filter (\<lambda>(v, y). y = unique_year) (zip x years))))
            unique_years))"

text \<open>
  The result of \<^verbatim>\<open>scipy.stats.linregress\<close>, of which step 3 reads the slope and the
  p-value. The regression itself belongs to scipy and is a parameter \<open>linregress\<close> of
  the model, given the distinct years and the annual means.
\<close>

record regression =
  slope :: real
  pvalue :: real

text \<open>
  \<^verbatim>\<open>ISIMIP._step3_remove_trend\<close>. The loop over the distinct years writes, for each of
  them, the entry of \<open>annual_trend\<close> at that year's index to all samples of the year.
  When the condition fails, \<open>annual_trend\<close> is \<^verbatim>\<open>np.zeros(years.size)\<close>.
\<close>

definition step3_map_trend_onto_daily_resolution ::
  "real list \<Rightarrow> int list \<Rightarrow> int list \<Rightarrow> nat \<Rightarrow> real list" where
  "step3_map_trend_onto_daily_resolution annual_trend unique_years years n =
     foldl (\<lambda>trend (index_unique_year, unique_year).
              map (\<lambda>(t, y). if y = unique_year then annual_trend ! index_unique_year else t)
                (zip trend years))
       (replicate n 0) (enumerate 0 unique_years)"

definition step3_remove_trend ::
  "(real list \<Rightarrow> real list \<Rightarrow> error + regression) \<Rightarrow> 'a isimip_scheme
     \<Rightarrow> real list \<Rightarrow> int list \<Rightarrow> error + (real list \<times> real list)" where
  "step3_remove_trend linregress cfg x years =
     (if length x \<noteq> length years then Inl (IndexError Boolean_index_shape)
      else
        let (unique_years, annual_means) = get_years_and_yearly_means x years
        in bind (linregress (map real_of_int unique_years) annual_means) (\<lambda>regression.
             let annual_trend =
                   (if pvalue regression < 0.05 \<and> trend_removal_with_significance_test cfg
                    then map (\<lambda>unique_year. slope regression
                              * (real_of_int unique_year - mean (map real_of_int unique_years)))
                           unique_years
                    else replicate (length years) 0);
                 trend = step3_map_trend_onto_daily_resolution annual_trend unique_years years
                           (length x)
             in Inr (map2 (-) x trend, trend)))"

text \<open>
  Step 3 as the specification words it, for comparison with the source: the trend is
  treated as zero if the significance test is on and the p-value is at least 0.05;
  otherwise \<open>slope \<cdot> (year - mean (year))\<close> is subtracted from each sample. This
  definition follows the specification, not the source.
\<close>

definition spec_step3_remove_trend ::
  "(real list \<Rightarrow> real list \<Rightarrow> error + regression) \<Rightarrow> 'a isimip_scheme
     \<Rightarrow> real list \<Rightarrow> int list \<Rightarrow> error + (real list \<times> real list)" where
  "spec_step3_remove_trend linregress cfg x years =
     (let (unique_years, annual_means) = get_years_and_yearly_means x years
      in bind (linregress (map real_of_int unique_years) annual_means) (\<lambda>regression.
           let trend =
                 (if trend_removal_with_significance_test cfg \<and> 0.05 \<le> pvalue regression
                  then replicate (length years) 0
                  else map (\<lambda>year. slope regression
                            * (real_of_int year - mean (map real_of_int unique_years))) years)
           in Inr (map2 (-) x trend, trend)))"

section \<open>ISIMIP, steps 2 and 4: the random draws\<close>













section \<open>ISIMIP, step 6: how many entries are set to the bounds\<close>

text \<open>
  \<^verbatim>\<open>ISIMIP._step6_get_P_obs_future\<close>, on the three proportions of values beyond a
  threshold.
\<close>

definition step6_get_P_obs_future :: "real \<Rightarrow> real \<Rightarrow> real \<Rightarrow> real" where
  "step6_get_P_obs_future P_obs_hist P_cm_hist P_cm_future =
     (if isclose P_cm_hist P_obs_hist then P_cm_future
      else if P_cm_future \<le> P_cm_hist \<and> P_obs_hist < P_cm_hist
        then P_obs_hist * P_cm_future / P_cm_hist
      else if P_cm_hist \<le> P_cm_future \<and> P_cm_hist < P_obs_hist
        then 1 - (1 - P_obs_hist) * (1 - P_cm_future) / (1 - P_cm_hist)
      else P_obs_hist + P_cm_future - P_cm_hist)"

text \<open>
  \<^verbatim>\<open>ISIMIP._step6_calculate_percent_values_beyond_threshold\<close>: \<^verbatim>\<open>mask.sum() / mask.size\<close>.
  For an empty mask numpy computes \<open>0 / 0\<close>, which is NaN; the NaN passes through
  \<^verbatim>\<open>_step6_get_P_obs_future\<close> and through the product with the size, and \<^verbatim>\<open>round\<close>
  then raises \<^verbatim>\<open>ValueError\<close>. In \<^verbatim>\<open>ISIMIP._step6_get_nr_of_entries_to_set_to_bound\<close>
  below, this is the first branch.
\<close>

definition step6_calculate_percent_values_beyond_threshold :: "bool list \<Rightarrow> real" where
  "step6_calculate_percent_values_beyond_threshold mask_for_values_beyond_threshold =
     real (length (filter id mask_for_values_beyond_threshold))
       / real (length mask_for_values_beyond_threshold)"

definition step6_get_nr_of_entries_to_set_to_bound ::
  "'a isimip_scheme \<Rightarrow> bool list \<Rightarrow> bool list \<Rightarrow> bool list \<Rightarrow> error + int" where
  "step6_get_nr_of_entries_to_set_to_bound cfg
       mask_for_values_beyond_threshold_obs_hist_sorted
       mask_for_values_beyond_threshold_cm_hist_sorted
       mask_for_values_beyond_threshold_cm_future_sorted =
     (if mask_for_values_beyond_threshold_obs_hist_sorted = []
         \<or> (adjust_frequencies_of_values_beyond_thresholds cfg
              \<and> (mask_for_values_beyond_threshold_cm_hist_sorted = []
                   \<or> mask_for_values_beyond_threshold_cm_future_sorted = []))
      then Inl (ValueError Nan_to_integer)
      else
        let P_obs_future =
              (if adjust_frequencies_of_values_beyond_thresholds cfg
               then step6_get_P_obs_future
                      (step6_calculate_percent_values_beyond_threshold
                         mask_for_values_beyond_threshold_obs_hist_sorted)
                      (step6_calculate_percent_values_beyond_threshold
                         mask_for_values_beyond_threshold_cm_hist_sorted)
                      (step6_calculate_percent_values_beyond_threshold
                         mask_for_values_beyond_threshold_cm_future_sorted)
               else step6_calculate_percent_values_beyond_threshold
                      mask_for_values_beyond_threshold_obs_hist_sorted)
        in Inr (py_round
                  (real (length mask_for_values_beyond_threshold_cm_future_sorted)
                     * P_obs_future)))"

text \<open>
  \<^verbatim>\<open>ISIMIP._step6_scale_nr_of_entries_to_set_to_bounds\<close>. The three arguments are Python
  integers and \<^verbatim>\<open>/\<close> is true division, which raises \<^verbatim>\<open>ZeroDivisionError\<close> on a zero
  divisor. The second assignment reads \<^verbatim>\<open>nr_of_entries_to_set_to_lower_bound\<close> after the
  first one has overwritten it.
\<close>

definition step6_scale_nr_of_entries_to_set_to_bounds ::
  "int \<Rightarrow> int \<Rightarrow> int \<Rightarrow> error + (int \<times> int)" where
  "step6_scale_nr_of_entries_to_set_to_bounds
     nr_of_entries_to_set_to_lower_bound nr_of_entries_to_set_to_upper_bound size_cm_future =
     (if nr_of_entries_to_set_to_lower_bound + nr_of_entries_to_set_to_upper_bound = 0
      then Inl (ZeroDivisionError Division)
      else
        let lower' = py_round
              (of_int (nr_of_entries_to_set_to_lower_bound * size_cm_future)
                 / of_int (nr_of_entries_to_set_to_lower_bound + nr_of_entries_to_set_to_upper_bound))
        in if lower' + nr_of_entries_to_set_to_upper_bound = 0
           then Inl (ZeroDivisionError Division)
           else Inr (lower',
                  py_round (of_int (nr_of_entries_to_set_to_upper_bound * size_cm_future)
                     / of_int (lower' + nr_of_entries_to_set_to_upper_bound))))"

text \<open>
  The scaling as the specification words it: both counts are multiplied by the one factor
  \<open>size / (nr_lower + nr_upper)\<close> and then rounded. This definition follows the
  specification, not the source; it is what the source is compared with.
\<close>

definition spec_scale_proportionally :: "int \<Rightarrow> int \<Rightarrow> int \<Rightarrow> int \<times> int" where
  "spec_scale_proportionally nr_lower nr_upper size_cm_future =
     (py_round (of_int nr_lower * (of_int size_cm_future / of_int (nr_lower + nr_upper))),
      py_round (of_int nr_upper * (of_int size_cm_future / of_int (nr_lower + nr_upper))))"

text \<open>
  The two masks of step 6. A Python slice \<^verbatim>\<open>mask[0:nr]\<close> ends at the length of the
  array if \<open>nr\<close> is larger, and a negative bound counts from the end; so does the start of
  \<^verbatim>\<open>mask[(size - nr):]\<close>.
\<close>

definition py_slice_bound :: "nat \<Rightarrow> int \<Rightarrow> nat" where
  "py_slice_bound n i = (if i < 0 then nat (max 0 (int n + i)) else min n (nat i))"

definition step6_get_mask_for_entries_to_set_to_lower_bound :: "int \<Rightarrow> 'a list \<Rightarrow> bool list" where
  "step6_get_mask_for_entries_to_set_to_lower_bound nr cm_future_sorted =
     map (\<lambda>j. j < py_slice_bound (length cm_future_sorted) nr) [0..<length cm_future_sorted]"

definition step6_get_mask_for_entries_to_set_to_upper_bound :: "int \<Rightarrow> 'a list \<Rightarrow> bool list" where
  "step6_get_mask_for_entries_to_set_to_upper_bound nr cm_future_sorted =
     map (\<lambda>j. py_slice_bound (length cm_future_sorted) (int (length cm_future_sorted) - nr) \<le> j)
       [0..<length cm_future_sorted]"

text \<open>
  The first part of \<^verbatim>\<open>ISIMIP.step6\<close>: the numbers of entries to set to the lower and to
  the upper bound, scaled if together they exceed the size of \<open>cm_future\<close>.
\<close>

definition step6_nr_of_entries_to_set_to_bounds ::
  "'a isimip_scheme \<Rightarrow> fl list \<Rightarrow> fl list \<Rightarrow> fl list \<Rightarrow> error + (int \<times> int)" where
  "step6_nr_of_entries_to_set_to_bounds cfg obs_hist_sorted cm_hist_sorted cm_future_sorted =
     bind (if has_lower_threshold cfg
           then step6_get_nr_of_entries_to_set_to_bound cfg
                  (get_mask_for_values_beyond_lower_threshold cfg obs_hist_sorted)
                  (get_mask_for_values_beyond_lower_threshold cfg cm_hist_sorted)
                  (get_mask_for_values_beyond_lower_threshold cfg cm_future_sorted)
           else Inr 0) (\<lambda>nr_of_entries_to_set_to_lower_bound.
     bind (if has_upper_threshold cfg
           then step6_get_nr_of_entries_to_set_to_bound cfg
                  (get_mask_for_values_beyond_upper_threshold cfg obs_hist_sorted)
                  (get_mask_for_values_beyond_upper_threshold cfg cm_hist_sorted)
                  (get_mask_for_values_beyond_upper_threshold cfg cm_future_sorted)
           else Inr 0) (\<lambda>nr_of_entries_to_set_to_upper_bound.
     if int (length cm_future_sorted)
          < nr_of_entries_to_set_to_lower_bound + nr_of_entries_to_set_to_upper_bound
     then step6_scale_nr_of_entries_to_set_to_bounds nr_of_entries_to_set_to_lower_bound
            nr_of_entries_to_set_to_upper_bound (int (length cm_future_sorted))
     else Inr (nr_of_entries_to_set_to_lower_bound, nr_of_entries_to_set_to_upper_bound)))"

text \<open>
  \<^verbatim>\<open>ISIMIP.step6\<close>. The quantile mapping of the entries that are set to neither bound,
  \<^verbatim>\<open>_step6_adjust_values_between_thresholds\<close>, fits and evaluates the distribution
  object; it is the parameter \<open>adjust_values_between_thresholds\<close>, applied to the five
  arrays that the source passes.
\<close>

definition step6 ::
  "'a isimip_scheme
     \<Rightarrow> (fl list \<Rightarrow> fl list \<Rightarrow> fl list \<Rightarrow> fl list \<Rightarrow> fl list \<Rightarrow> error + fl list)
     \<Rightarrow> fl list \<Rightarrow> fl list \<Rightarrow> fl list \<Rightarrow> fl list \<Rightarrow> error + fl list" where
  "step6 cfg adjust_values_between_thresholds obs_hist obs_future cm_hist cm_future =
     (let cm_future_argsort = argsort cm_future;
          cm_future_sorted = map (\<lambda>i. cm_future ! i) cm_future_argsort;
          obs_hist_sorted = sort obs_hist;
          obs_future_sorted = sort obs_future;
          cm_hist_sorted = sort cm_hist
      in bind (step6_nr_of_entries_to_set_to_bounds cfg obs_hist_sorted cm_hist_sorted
                 cm_future_sorted)
           (\<lambda>(nr_of_entries_to_set_to_lower_bound, nr_of_entries_to_set_to_upper_bound).
         let mask_for_entries_to_set_to_lower_bound =
               step6_get_mask_for_entries_to_set_to_lower_bound
                 nr_of_entries_to_set_to_lower_bound cm_future_sorted;
             mask_for_entries_to_set_to_upper_bound =
               step6_get_mask_for_entries_to_set_to_upper_bound
                 nr_of_entries_to_set_to_upper_bound cm_future_sorted;
             mapped_vals = map2 (\<lambda>v m. if m then lower_bound cfg else v)
                             cm_future_sorted mask_for_entries_to_set_to_lower_bound;
             mapped_vals = map2 (\<lambda>v m. if m then upper_bound cfg else v)
                             mapped_vals mask_for_entries_to_set_to_upper_bound;
             mask_for_entries_not_set_to_either_bound =
               map2 (\<lambda>l u. \<not> l \<and> \<not> u) mask_for_entries_to_set_to_lower_bound
                 mask_for_entries_to_set_to_upper_bound
         in bind (if list_ex id mask_for_entries_not_set_to_either_bound
                  then bind (adjust_values_between_thresholds
                               (get_values_between_thresholds cfg obs_hist_sorted)
                               (get_values_between_thresholds cfg obs_future_sorted)
                               (get_values_between_thresholds cfg cm_hist_sorted)
                               (map fst (filter snd (zip mapped_vals
                                  mask_for_entries_not_set_to_either_bound)))
                               (get_values_between_thresholds cfg cm_future_sorted))
                         (mask_assign mapped_vals mask_for_entries_not_set_to_either_bound)
                  else Inr mapped_vals) (\<lambda>mapped_vals.
            let reverse_sorting_idx = argsort cm_future_argsort
            in Inr (map (\<lambda>i. mapped_vals ! i) reverse_sorting_idx))))"

section \<open>Example inputs\<close>

text \<open>
  Concrete values for the parameters, used where a theorem is applied to a concrete
  input: a calendar of years of 365 days, in which a day number \<open>t\<close> falls in the year
  \<open>2000 + t div 365\<close>; estimators and running windows that the examples do not reach;
  and a CDFt object with stochastic singularity removal.
\<close>

abbreviation example_utils :: utils where
  "example_utils \<equiv>
     \<lparr>year = (\<lambda>t. 2000 + t div 365), month = (\<lambda>t. nat ((t mod 365) div 31) + 1),
      day_of_year = (\<lambda>t. nat (t mod 365) + 1), january_1st = 0,
      ecdf_kernel_density = (\<lambda>x y. Inl (ValueError Empty_sample)),
      iecdf_other = (\<lambda>method x p. Inl (ValueError Empty_sample)),
      running_window_over_years_use = (\<lambda>l s years. []),
      running_window_over_days_of_year_use = (\<lambda>l s days years. []),
      get_indices_vals_in_window = (\<lambda>l s days center. []),
      garbage = (\<lambda>i. 0)\<rparr>"

abbreviation example_cdft :: cdft where
  "example_cdft \<equiv>
     \<lparr>SSR = True, delta_shift = ''no_shift'', apply_by_month = False,
      running_window_mode = False, running_window_length_in_years = 17,
      running_window_step_length_in_years = 9, ecdf_method = ''linear_interpolation'',
      iecdf_method = ''linear''\<rparr>"

abbreviation example_isimip :: isimip where
  "example_isimip \<equiv>
     \<lparr>detrending = False, reasonable_physical_range = None,
      lower_bound = Fin 0, lower_threshold = Fin 1, upper_bound = PInf, upper_threshold = PInf,
      impute_missing_values = False, trend_removal_with_significance_test = True,
      adjust_frequencies_of_values_beyond_thresholds = True,
      isimip_iecdf_method = ''linear'', isimip_running_window_mode = True,
      running_window_length = 31, running_window_step_length = 1\<rparr>"

abbreviation example_distribution :: "real distribution" where
  "example_distribution \<equiv>
     \<lparr>fit = (\<lambda>x. Inr (mean x)), cdf = (\<lambda>loc x. x - loc), ppf = (\<lambda>loc t. loc + t)\<rparr>"

abbreviation example_qdm :: qdm where
  "example_qdm \<equiv>
     \<lparr>trend_preservation = ''absolute'', censor_values_to_zero = False,
      censoring_threshold = 0, running_window_mode_over_years_of_cm_future = False,
      running_window_over_years_of_cm_future_length = 31,
      running_window_over_years_of_cm_future_step_length = 1,
      running_window_mode_within_year = False, running_window_within_year_length = 91,
      running_window_within_year_step_length = 31,
      qdm_ecdf_method = ''linear_interpolation'', cdf_threshold = 1 / 10\<rparr>"

abbreviation example_isimip_steps :: isimip_steps where
  "example_isimip_steps \<equiv>
     \<lparr>step1 = (\<lambda>obs cm_hist cm_future t_obs t_cm_hist t_cm_future.
                 Inr (obs, cm_hist, cm_future, None)),
      isimip_apply_on_window = (\<lambda>g obs cm_hist cm_future y_obs y_cm_hist y_cm_future.
                 Inr (cm_future, g)),
      step8 = (\<lambda>cm_future cycle t_cm_future. Inr cm_future)\<rparr>"

section \<open>Theorems\<close>

subsection \<open>Computations that may raise\<close>

lemma bind_Inl [simp]: "bind (Inl e) f = Inl e"
  by (simp add: bind_def)

lemma bind_Inr [simp]: "bind (Inr x) f = f x"
  by (simp add: bind_def)

lemma bind_eq_Inr: "bind m f = Inr y \<longleftrightarrow> (\<exists>x. m = Inr x \<and> f x = Inr y)"
  by (cases m) simp_all

lemma isl_bind: "isl (bind m f) \<longleftrightarrow> isl m \<or> (\<exists>x. m = Inr x \<and> isl (f x))"
  by (cases m) simp_all

lemma time_arrays_given [simp]:
  "time_arrays_given_or_inferred U obs cm_hist cm_future
     (Some time_obs) (Some time_cm_hist) (Some time_cm_future)
   = (time_obs, time_cm_hist, time_cm_future)"
  by (simp add: time_arrays_given_or_inferred_def)


text \<open>
  C2. The claim: when the two counts together exceed the size of \<open>cm_future\<close>, each is
  multiplied by the same factor \<open>size / (nr_lower + nr_upper)\<close> and rounded, and afterwards
  the two counts together no longer exceed the size. The source does otherwise at the
  counts 3 and 2 for a sample of size 3: the lower count becomes \<open>round (9 / 5) = 2\<close>, and
  the upper count is then computed with the new lower count in the divisor,
  \<open>round (6 / (2 + 2)) = 2\<close>, where the common factor gives \<open>round (6 / 5) = 1\<close>. The two
  counts returned by the source add up to 4, more than the sample size 3. Step 6 reaches
  these counts: with the thresholds 1 and 9, \<open>obs_hist = [0, 10, 10]\<close>,
  \<open>cm_hist = [0, 5, 5]\<close> and \<open>cm_future = [0, 1 / 2, 3 / 4]\<close> the counts before scaling
  are 3 and 2.
\<close>

theorem step6_scale_not_proportional:
  "step6_scale_nr_of_entries_to_set_to_bounds 3 2 3 = Inr (2, 2)
   \<and> spec_scale_proportionally 3 2 3 = (2, 1)
   \<and> (3::int) < 2 + 2
   \<and> step6_nr_of_entries_to_set_to_bounds
         (example_isimip\<lparr>upper_bound := Fin 10, upper_threshold := Fin 9\<rparr>)
         [Fin 0, Fin 10, Fin 10] [Fin 0, Fin 5, Fin 5] [Fin 0, Fin (1 / 2), Fin (3 / 4)]
       = Inr (2, 2)"
  by code_simp

text \<open>
  C1. The claim: the trend is treated as zero exactly when the significance test is on
  and the p-value is at least 0.05; with the test off it is always subtracted. The source
  subtracts the trend only if the p-value is below 0.05 and the test is on, so with the
  test off it never subtracts it. For three years with the annual means 0, 1 and 2, for
  which the regression has slope 1 and p-value 0, the source returns the series unchanged
  and a zero trend, where the claim gives the trend \<open>-1, 0, 1\<close> and the series \<open>1, 1, 1\<close>.
\<close>

theorem step3_trend_kept_without_significance_test:
  "step3_remove_trend (\<lambda>x y. Inr \<lparr>slope = 1, pvalue = 0\<rparr>)
       (cfg\<lparr>trend_removal_with_significance_test := False\<rparr>)
       [0, 1, 2] [2000, 2001, 2002]
     = Inr ([0, 1, 2], [0, 0, 0])
   \<and> spec_step3_remove_trend (\<lambda>x y. Inr \<lparr>slope = 1, pvalue = 0\<rparr>)
       (cfg\<lparr>trend_removal_with_significance_test := False\<rparr>)
       [0, 1, 2] [2000, 2001, 2002]
     = Inr ([1, 1, 1], [-1, 0, 1])"
  by (simp add: step3_remove_trend_def spec_step3_remove_trend_def
      step3_map_trend_onto_daily_resolution_def get_years_and_yearly_means_def
      np_unique_def mean_def bind_def Let_def)

subsection \<open>CDFt: stochastic singularity removal\<close>

lemma positive_min_Inl:
  "positive_min x = Inl e \<longleftrightarrow> e = ValueError Zero_size_reduction \<and> (\<forall>v\<in>set x. v \<le> 0)"
proof (cases "filter (\<lambda>v. 0 < v) x")
  case Nil
  then have "\<forall>v\<in>set x. v \<le> 0" by (simp add: filter_empty_conv not_less)
  with Nil show ?thesis by (auto simp: positive_min_def)
next
  case (Cons v vs)
  then have "v \<in> set (filter (\<lambda>v. 0 < v) x)" by simp
  then have "v \<in> set x" and "0 < v" by simp_all
  then have "\<not> (\<forall>v\<in>set x. v \<le> 0)" by (auto intro!: bexI[of _ v])
  with Cons show ?thesis by (simp add: positive_min_def)
qed

lemma positive_min_Inr:
  assumes "positive_min x = Inr m"
  shows "m = Min {v \<in> set x. 0 < v}" and "0 < m" and "m \<in> set x"
proof -
  from assms obtain v vs where f: "filter (\<lambda>v. 0 < v) x = v # vs" and m: "m = Min (set (v # vs))"
    by (auto simp: positive_min_def split: list.splits)
  have s: "set (v # vs) = {v \<in> set x. 0 < v}"
    using f by (metis set_filter)
  show "m = Min {v \<in> set x. 0 < v}" using m s by simp
  have "m \<in> set (v # vs)" unfolding m by (rule Min_in) simp_all
  then show "0 < m" and "m \<in> set x" using s by auto
qed

lemma get_threshold_Inl:
  assumes "(\<forall>v\<in>set obs. v \<le> 0) \<or> (\<forall>v\<in>set cm_hist. v \<le> 0) \<or> (\<forall>v\<in>set cm_future. v \<le> 0)"
  shows "get_threshold obs cm_hist cm_future = Inl (ValueError Zero_size_reduction)"
proof -
  have *: "\<And>x. positive_min x = Inl (ValueError Zero_size_reduction) \<or> (\<exists>m. positive_min x = Inr m \<and> \<not> (\<forall>v\<in>set x. v \<le> 0))"
    subgoal for x
      using positive_min_Inl[of x] by (cases "positive_min x") auto
    done
  show ?thesis
    using assms *[of obs] *[of cm_hist] *[of cm_future]
    by (auto simp: get_threshold_def)
qed

lemma apply_on_month_and_window_SSR_fails:
  assumes "SSR cfg"
    and "(\<forall>v\<in>set obs. v \<le> 0) \<or> (\<forall>v\<in>set cm_hist. v \<le> 0) \<or> (\<forall>v\<in>set cm_future. v \<le> 0)"
  shows "apply_on_month_and_window U cfg g obs cm_hist cm_future = Inl (ValueError Zero_size_reduction)"
  using assms(1) get_threshold_Inl[OF assms(2)]
  by (simp add: apply_on_month_and_window_def apply_SSR_steps_before_adjustment_def)


lemma isl_bindI: "(\<And>x. m = Inr x \<Longrightarrow> isl (f x)) \<Longrightarrow> isl (bind m f)"
  by (cases m) simp_all

lemma mask_select_map:
  assumes "length t = length x"
  shows "mask_select x (map P t) = Inr (map fst (filter (\<lambda>(v, t). P t) (zip x t)))"
proof -
  have "map fst (filter snd (zip x (map P t))) = map fst (filter (\<lambda>(v, t). P t) (zip x t))"
    using assms by (induction x t rule: list_induct2') simp_all
  then show ?thesis using assms by (simp add: mask_select_def)
qed

lemma apply_by_month_loop_fails:
  assumes "SSR cfg" and "m \<in> set months"
    and "length time_obs = length obs" and "length time_cm_hist = length cm_hist"
    and "length time_cm_future = length cm_future"
    and "list_all (\<lambda>(v, t). month U t = m \<longrightarrow> v \<le> 0) (zip obs time_obs)
       \<or> list_all (\<lambda>(v, t). month U t = m \<longrightarrow> v \<le> 0) (zip cm_hist time_cm_hist)
       \<or> list_all (\<lambda>(v, t). month U t = m \<longrightarrow> v \<le> 0) (zip cm_future time_cm_future)"
  shows "isl (apply_by_month_loop U cfg obs cm_hist cm_future time_obs time_cm_hist
            time_cm_future months debiased g)"
  using assms(2)
proof (induction months arbitrary: debiased g)
  case Nil
  then show ?case by simp
next
  case (Cons i_month months)
  let ?sel = "\<lambda>x t. map fst (filter (\<lambda>(v, t). month U t = i_month) (zip x t))"
  show ?case
  proof (cases "i_month = m")
    case True
    have "(\<forall>v\<in>set (?sel obs time_obs). v \<le> 0) \<or> (\<forall>v\<in>set (?sel cm_hist time_cm_hist). v \<le> 0)
        \<or> (\<forall>v\<in>set (?sel cm_future time_cm_future). v \<le> 0)"
      using assms(6) True by (auto simp: list_all_iff)
    then have "apply_on_month_and_window U cfg g (?sel obs time_obs) (?sel cm_hist time_cm_hist)
        (?sel cm_future time_cm_future) = Inl (ValueError Zero_size_reduction)"
      by (rule apply_on_month_and_window_SSR_fails[OF assms(1)])
    then show ?thesis
      by (simp add: mask_select_map assms(3-5))
  next
    case False
    with Cons.prems have "m \<in> set months" by simp
    then have "\<And>d g'. isl (apply_by_month_loop U cfg obs cm_hist cm_future time_obs time_cm_hist
            time_cm_future months d g')"
      by (rule Cons.IH)
    then show ?thesis
      by (auto simp: mask_select_map assms(3-5) split_def intro!: isl_bindI)
  qed
qed

text \<open>
  C10. With \<open>SSR\<close> switched on, a chunk in which \<open>obs\<close>, \<open>cm_hist\<close> or \<open>cm_future\<close> has no
  strictly positive value makes the threshold computation take the minimum of an empty
  selection: the computation on the chunk raises the \<^verbatim>\<open>ValueError\<close> of numpy for a
  zero-size reduction, which is not the error of the dimension check. So does
  \<open>apply_location\<close> on the whole series when it works neither by month nor in running
  windows; when it works by month, it raises an exception as soon as one of the twelve
  months has no strictly positive value in one of the three series.
\<close>

theorem cdft_SSR_fails_without_positive_values:
  assumes "SSR cfg"
  shows "((\<forall>v\<in>set obs. v \<le> 0) \<or> (\<forall>v\<in>set cm_hist. v \<le> 0) \<or> (\<forall>v\<in>set cm_future. v \<le> 0)
          \<longrightarrow> apply_on_month_and_window U cfg g obs cm_hist cm_future
                = Inl (ValueError Zero_size_reduction))
       \<and> (\<not> running_window_mode cfg \<and> \<not> apply_by_month cfg
          \<and> length time_obs = length obs \<and> length time_cm_hist = length cm_hist
          \<and> length time_cm_future = length cm_future
          \<and> ((\<forall>v\<in>set obs. v \<le> 0) \<or> (\<forall>v\<in>set cm_hist. v \<le> 0) \<or> (\<forall>v\<in>set cm_future. v \<le> 0))
          \<longrightarrow> apply_location U cfg g obs cm_hist cm_future
                  (Some time_obs) (Some time_cm_hist) (Some time_cm_future)
                = Inl (ValueError Zero_size_reduction))
       \<and> (\<not> running_window_mode cfg \<and> apply_by_month cfg
          \<and> length time_obs = length obs \<and> length time_cm_hist = length cm_hist
          \<and> length time_cm_future = length cm_future
          \<and> m \<in> {1..12}
          \<and> (list_all (\<lambda>(v, t). month U t = m \<longrightarrow> v \<le> 0) (zip obs time_obs)
             \<or> list_all (\<lambda>(v, t). month U t = m \<longrightarrow> v \<le> 0) (zip cm_hist time_cm_hist)
             \<or> list_all (\<lambda>(v, t). month U t = m \<longrightarrow> v \<le> 0) (zip cm_future time_cm_future))
          \<longrightarrow> isl (apply_location U cfg g obs cm_hist cm_future
                  (Some time_obs) (Some time_cm_hist) (Some time_cm_future)))"
proof (intro conjI impI)
  assume "(\<forall>v\<in>set obs. v \<le> 0) \<or> (\<forall>v\<in>set cm_hist. v \<le> 0) \<or> (\<forall>v\<in>set cm_future. v \<le> 0)"
  then show "apply_on_month_and_window U cfg g obs cm_hist cm_future
      = Inl (ValueError Zero_size_reduction)"
    by (rule apply_on_month_and_window_SSR_fails[OF assms])
next
  assume a: "\<not> running_window_mode cfg \<and> \<not> apply_by_month cfg
          \<and> length time_obs = length obs \<and> length time_cm_hist = length cm_hist
          \<and> length time_cm_future = length cm_future
          \<and> ((\<forall>v\<in>set obs. v \<le> 0) \<or> (\<forall>v\<in>set cm_hist. v \<le> 0) \<or> (\<forall>v\<in>set cm_future. v \<le> 0))"
  then have "apply_on_month_and_window U cfg g obs cm_hist cm_future
      = Inl (ValueError Zero_size_reduction)"
    using apply_on_month_and_window_SSR_fails[OF assms] by blast
  with a show "apply_location U cfg g obs cm_hist cm_future
                  (Some time_obs) (Some time_cm_hist) (Some time_cm_future)
                = Inl (ValueError Zero_size_reduction)"
    by (simp add: apply_location_def check_time_information_and_raise_error_def
        apply_on_window_def)
next
  assume a: "\<not> running_window_mode cfg \<and> apply_by_month cfg
          \<and> length time_obs = length obs \<and> length time_cm_hist = length cm_hist
          \<and> length time_cm_future = length cm_future
          \<and> m \<in> {1..12}
          \<and> (list_all (\<lambda>(v, t). month U t = m \<longrightarrow> v \<le> 0) (zip obs time_obs)
             \<or> list_all (\<lambda>(v, t). month U t = m \<longrightarrow> v \<le> 0) (zip cm_hist time_cm_hist)
             \<or> list_all (\<lambda>(v, t). month U t = m \<longrightarrow> v \<le> 0) (zip cm_future time_cm_future))"
  then have "m \<in> set [1..<13]" by auto
  moreover from a have "length time_obs = length obs" and "length time_cm_hist = length cm_hist"
    and "length time_cm_future = length cm_future" by blast+
  moreover from a have "list_all (\<lambda>(v, t). month U t = m \<longrightarrow> v \<le> 0) (zip obs time_obs)
             \<or> list_all (\<lambda>(v, t). month U t = m \<longrightarrow> v \<le> 0) (zip cm_hist time_cm_hist)
             \<or> list_all (\<lambda>(v, t). month U t = m \<longrightarrow> v \<le> 0) (zip cm_future time_cm_future)"
    by blast
  ultimately have "isl (apply_by_month_loop U cfg obs cm_hist cm_future time_obs time_cm_hist
            time_cm_future [1..<13] (np_empty_like U cm_future) g)"
    by (rule apply_by_month_loop_fails[OF assms])
  with a show "isl (apply_location U cfg g obs cm_hist cm_future
                  (Some time_obs) (Some time_cm_hist) (Some time_cm_future))"
    by (simp add: apply_location_def check_time_information_and_raise_error_def
        apply_on_window_def)
qed


theorem cdft_SSR_fails_without_positive_values_witness:
  "apply_on_month_and_window example_utils example_cdft (\<lambda>i. 1 / 2) [0, - 1] [1] [2]
     = Inl (ValueError Zero_size_reduction)
   \<and> apply_location example_utils example_cdft (\<lambda>i. 1 / 2) [0, - 1] [1] [2]
       (Some [0, 1]) (Some [0]) (Some [0])
     = Inl (ValueError Zero_size_reduction)
   \<and> isl (apply_location example_utils (example_cdft\<lparr>apply_by_month := True\<rparr>) (\<lambda>i. 1 / 2)
       [0, - 1] [1] [2] (Some [0, 1]) (Some [0]) (Some [0]))"
  using cdft_SSR_fails_without_positive_values[where cfg = example_cdft and obs = "[0, - 1]"
      and cm_hist = "[1]" and cm_future = "[2]" and U = example_utils and g = "\<lambda>i. 1 / 2"
      and time_obs = "[0, 1]" and time_cm_hist = "[0]" and time_cm_future = "[0]"]
    cdft_SSR_fails_without_positive_values[where cfg = "example_cdft\<lparr>apply_by_month := True\<rparr>"
      and obs = "[0, - 1]"
      and cm_hist = "[1]" and cm_future = "[2]" and U = example_utils and g = "\<lambda>i. 1 / 2"
      and time_obs = "[0, 1]" and time_cm_hist = "[0]" and time_cm_future = "[0]" and m = 1]
  by simp

lemma randomize_zero_values:
  assumes g: "\<forall>i. 0 \<le> g i \<and> g i < 1" and thr: "0 < threshold"
    and r: "randomize_zero_values_between_zero_and_threshold g x threshold = (x', g')"
  shows "list_all2 (\<lambda>v v'. if v = 0 then 0 \<le> v' \<and> v' < threshold else v' = v) x x'"
    and "\<forall>i. 0 \<le> g' i \<and> g' i < 1"
proof -
  from r have x': "x' = map2 (\<lambda>v d. if v = 0 then d else v) x
      (map (\<lambda>i. 0 + (threshold - 0) * g i) [0..<length x])"
    and g': "g' = (\<lambda>i. g (i + length x))"
    by (simp_all add: randomize_zero_values_between_zero_and_threshold_def
        np_random_uniform_def)
  show "\<forall>i. 0 \<le> g' i \<and> g' i < 1" using g by (simp add: g')
  have "0 \<le> threshold * g i \<and> threshold * g i < threshold" for i
  proof -
    have "0 \<le> g i" "g i < 1" using g by simp_all
    then show ?thesis using thr by simp
  qed
  then show "list_all2 (\<lambda>v v'. if v = 0 then 0 \<le> v' \<and> v' < threshold else v' = v) x x'"
    by (simp add: x' list_all2_conv_all_nth)
qed

lemma get_threshold_Inr:
  assumes "get_threshold obs cm_hist cm_future = Inr threshold"
  shows "threshold = Min {v \<in> set obs \<union> set cm_hist \<union> set cm_future. 0 < v}"
    and "0 < threshold"
proof -
  from assms obtain a b c where a: "positive_min obs = Inr a"
    and b: "positive_min cm_hist = Inr b" and c: "positive_min cm_future = Inr c"
    and t: "threshold = min a (min b c)"
    by (auto simp: get_threshold_def bind_eq_Inr)
  note pa = positive_min_Inr[OF a] and pb = positive_min_Inr[OF b]
    and pc = positive_min_Inr[OF c]
  show "0 < threshold" using t pa(2) pb(2) pc(2) by simp
  let ?A = "{v \<in> set obs. 0 < v}" and ?B = "{v \<in> set cm_hist. 0 < v}"
    and ?C = "{v \<in> set cm_future. 0 < v}"
  have ne: "?A \<noteq> {}" "?B \<noteq> {}" "?C \<noteq> {}"
    using pa(2,3) pb(2,3) pc(2,3) by auto
  have "{v \<in> set obs \<union> set cm_hist \<union> set cm_future. 0 < v} = ?A \<union> (?B \<union> ?C)"
    by auto
  moreover have "Min (?A \<union> (?B \<union> ?C)) = min (Min ?A) (min (Min ?B) (Min ?C))"
    using ne by (simp add: Min_Un)
  ultimately show "threshold = Min {v \<in> set obs \<union> set cm_hist \<union> set cm_future. 0 < v}"
    using t pa(1) pb(1) pc(1) by simp
qed

text \<open>
  C7. With \<open>SSR\<close> switched on, whenever the computation on a chunk returns: the
  threshold is the least strictly positive value of \<open>obs\<close>, \<open>cm_hist\<close> and \<open>cm_future\<close>
  of the chunk; in each of the three series every zero is replaced by a draw, which lies
  in \<open>[0, threshold)\<close> as the draws of the generator lie in \<open>[0, 1)\<close>, and every other
  value is kept; the mapping is applied to the three randomised series, and every mapped
  value below the threshold is set to zero. So every value returned for the chunk is 0
  or at least the threshold.
\<close>

theorem cdft_SSR_threshold:
  assumes ssr: "SSR cfg"
    and g: "\<forall>i. 0 \<le> g i \<and> g i < 1"
    and run: "apply_on_month_and_window U cfg g obs cm_hist cm_future = Inr (out, g')"
  shows "\<exists>threshold obs' cm_hist' cm_future' mapped.
            threshold = Min {v \<in> set obs \<union> set cm_hist \<union> set cm_future. 0 < v}
          \<and> 0 < threshold
          \<and> apply_SSR_steps_before_adjustment g obs cm_hist cm_future
               = Inr (obs', cm_hist', cm_future', threshold, g')
          \<and> list_all2 (\<lambda>v v'. if v = 0 then 0 \<le> v' \<and> v' < threshold else v' = v) obs obs'
          \<and> list_all2 (\<lambda>v v'. if v = 0 then 0 \<le> v' \<and> v' < threshold else v' = v)
               cm_hist cm_hist'
          \<and> list_all2 (\<lambda>v v'. if v = 0 then 0 \<le> v' \<and> v' < threshold else v' = v)
               cm_future cm_future'
          \<and> apply_CDFt_mapping U cfg obs' cm_hist' cm_future' = Inr mapped
          \<and> out = map (\<lambda>v. if v < threshold then 0 else v) mapped
          \<and> (\<forall>v\<in>set out. v = 0 \<or> threshold \<le> v)"
proof -
  from run ssr obtain obs' cm_hist' cm_future' threshold mapped where
    before: "apply_SSR_steps_before_adjustment g obs cm_hist cm_future
             = Inr (obs', cm_hist', cm_future', threshold, g')"
    and mapped: "apply_CDFt_mapping U cfg obs' cm_hist' cm_future' = Inr mapped"
    and out: "out = map (\<lambda>v. if v < threshold then 0 else v) mapped"
    by (auto simp: apply_on_month_and_window_def bind_eq_Inr
        apply_SSR_steps_after_adjustment_def set_values_below_threshold_to_zero_def)
  from before obtain t where thr0: "get_threshold obs cm_hist cm_future = Inr t"
    and rest: "(let (obs', g1) = randomize_zero_values_between_zero_and_threshold g obs t;
                    (cm_hist', g2) =
                      randomize_zero_values_between_zero_and_threshold g1 cm_hist t;
                    (cm_future', g3) =
                      randomize_zero_values_between_zero_and_threshold g2 cm_future t
                in Inr (obs', cm_hist', cm_future', t, g3))
               = (Inr (obs', cm_hist', cm_future', threshold, g')
                   :: error + (real list \<times> real list \<times> real list \<times> real \<times> rng))"
    by (auto simp: apply_SSR_steps_before_adjustment_def bind_eq_Inr)
  obtain o1 g1 where r1': "randomize_zero_values_between_zero_and_threshold g obs t = (o1, g1)"
    by (cases "randomize_zero_values_between_zero_and_threshold g obs t")
  obtain h1 g2 where
    r2': "randomize_zero_values_between_zero_and_threshold g1 cm_hist t = (h1, g2)"
    by (cases "randomize_zero_values_between_zero_and_threshold g1 cm_hist t")
  obtain f1 g3 where
    r3': "randomize_zero_values_between_zero_and_threshold g2 cm_future t = (f1, g3)"
    by (cases "randomize_zero_values_between_zero_and_threshold g2 cm_future t")
  from rest have eqs: "o1 = obs'" "h1 = cm_hist'" "f1 = cm_future'" "t = threshold" "g3 = g'"
    by (simp_all add: r1' r2' r3')
  have thr: "get_threshold obs cm_hist cm_future = Inr threshold"
    and r1: "randomize_zero_values_between_zero_and_threshold g obs threshold = (obs', g1)"
    and r2: "randomize_zero_values_between_zero_and_threshold g1 cm_hist threshold
             = (cm_hist', g2)"
    and r3: "randomize_zero_values_between_zero_and_threshold g2 cm_future threshold
             = (cm_future', g')"
    using thr0 r1' r2' r3' eqs by simp_all
  note t = get_threshold_Inr[OF thr]
  note p1 = randomize_zero_values[OF g t(2) r1]
  note p2 = randomize_zero_values[OF p1(2) t(2) r2]
  note p3 = randomize_zero_values[OF p2(2) t(2) r3]
  have "\<forall>v\<in>set out. v = 0 \<or> threshold \<le> v"
    by (auto simp: out)
  then show ?thesis
    using t before p1(1) p2(1) p3(1) mapped out by blast
qed

lemma cdft_SSR_example:
  "apply_on_month_and_window example_utils example_cdft (\<lambda>i. 1 / 2) [0, 1] [0, 2] [0, 3]
   = Inr ([0, 4 / 3], \<lambda>i. 1 / 2)"
  by (simp add: apply_on_month_and_window_def apply_SSR_steps_before_adjustment_def
      get_threshold_def positive_min_def randomize_zero_values_between_zero_and_threshold_def
      np_random_uniform_def apply_CDFt_mapping_def apply_SSR_steps_after_adjustment_def
      set_values_below_threshold_to_zero_def
      ecdf_def iecdf_def np_interp_def linspace01_def quantile_linear_def Let_def
      upt_rec numeral_eq_Suc)

theorem cdft_SSR_threshold_witness:
  "\<exists>obs' cm_hist' cm_future' mapped.
       apply_SSR_steps_before_adjustment (\<lambda>i. 1 / 2) [0, 1] [0, 2] [0, 3]
         = Inr (obs', cm_hist', cm_future', 1, \<lambda>i. 1 / 2)
     \<and> apply_CDFt_mapping example_utils example_cdft obs' cm_hist' cm_future' = Inr mapped
     \<and> [0, 4 / 3] = map (\<lambda>v. if v < 1 then 0 else v) mapped
     \<and> apply_on_month_and_window example_utils example_cdft (\<lambda>i. 1 / 2) [0, 1] [0, 2] [0, 3]
         = Inr ([0, 4 / 3], \<lambda>i. 1 / 2)"
proof -
  have m: "Min {v \<in> set [0, 1] \<union> set [0, 2] \<union> set [0, 3]. 0 < v} = (1::real)"
  proof -
    have "{v \<in> set [0, 1] \<union> set [0, 2] \<union> set [0, 3]. 0 < v} = {1, 2, 3::real}" by auto
    then show ?thesis by simp
  qed
  show ?thesis
    using cdft_SSR_threshold[where cfg = example_cdft and g = "\<lambda>i. 1 / 2"
        and U = example_utils and obs = "[0, 1]" and cm_hist = "[0, 2]"
        and cm_future = "[0, 3]" and out = "[0, 4 / 3]" and g' = "\<lambda>i. 1 / 2",
        OF _ _ cdft_SSR_example]
      cdft_SSR_example
    unfolding m by auto
qed

subsection \<open>QuantileDeltaMapping: absolute trend preservation\<close>





subsection \<open>The check of the time information\<close>

lemma check_time_information_fails:
  "length obs \<noteq> length time_obs \<or> length cm_hist \<noteq> length time_cm_hist
     \<or> length cm_future \<noteq> length time_cm_future
   \<Longrightarrow> check_time_information_and_raise_error obs cm_hist cm_future
         time_obs time_cm_hist time_cm_future = Inl (ValueError Time_information_check)"
  by (simp add: check_time_information_and_raise_error_def)

text \<open>
  C9. If, for the date sequences that are given or inferred, the size of \<open>obs\<close>,
  \<open>cm_hist\<close> or \<open>cm_future\<close> differs from the size of its date sequence, then
  \<open>apply_location\<close> of CDFt and of QuantileDeltaMapping raise the \<^verbatim>\<open>ValueError\<close> of the
  check of the time information, and \<open>apply_location\<close> of ISIMIP raises that error or,
  from the check that precedes it, the \<^verbatim>\<open>ValueError\<close> of the reasonable physical range.
  No result is returned, whatever the running windows, the estimators, the distribution
  and the steps of ISIMIP are: none of them is reached.
\<close>

theorem time_information_mismatch_is_fatal:
  assumes t: "time_arrays_given_or_inferred U obs cm_hist cm_future
                time_obs time_cm_hist time_cm_future = (t_obs, t_cm_hist, t_cm_future)"
    and m: "length obs \<noteq> length t_obs \<or> length cm_hist \<noteq> length t_cm_hist
            \<or> length cm_future \<noteq> length t_cm_future"
  shows "apply_location U cdft_cfg g obs cm_hist cm_future time_obs time_cm_hist time_cm_future
           = Inl (ValueError Time_information_check)
       \<and> qdm_apply_location U D qdm_cfg obs cm_hist cm_future
             time_obs time_cm_hist time_cm_future
           = Inl (ValueError Time_information_check)
       \<and> (isimip_apply_location U isimip_cfg S g obs cm_hist cm_future
             time_obs time_cm_hist time_cm_future
           = Inl (ValueError Time_information_check)
          \<or> isimip_apply_location U isimip_cfg S g obs cm_hist cm_future
             time_obs time_cm_hist time_cm_future
           = Inl (ValueError Reasonable_physical_range_check))"
proof -
  note c = check_time_information_fails[OF m]
  have "apply_location U cdft_cfg g obs cm_hist cm_future time_obs time_cm_hist time_cm_future
           = Inl (ValueError Time_information_check)"
    by (simp add: apply_location_def t c)
  moreover have "qdm_apply_location U D qdm_cfg obs cm_hist cm_future
             time_obs time_cm_hist time_cm_future
           = Inl (ValueError Time_information_check)"
    by (simp add: qdm_apply_location_def t c)
  moreover have "isimip_apply_location U isimip_cfg S g obs cm_hist cm_future
             time_obs time_cm_hist time_cm_future
           = Inl (ValueError Time_information_check)
          \<or> isimip_apply_location U isimip_cfg S g obs cm_hist cm_future
             time_obs time_cm_hist time_cm_future
           = Inl (ValueError Reasonable_physical_range_check)"
  proof (cases "check_reasonable_physical_range isimip_cfg obs cm_hist cm_future")
    case (Inl e)
    then have "e = ValueError Reasonable_physical_range_check"
      by (auto simp: check_reasonable_physical_range_def split: option.splits if_splits)
    with Inl show ?thesis by (simp add: isimip_apply_location_def)
  next
    case (Inr u)
    then show ?thesis by (simp add: isimip_apply_location_def t c)
  qed
  ultimately show ?thesis by blast
qed

theorem time_information_mismatch_is_fatal_witness:
  "apply_location example_utils example_cdft (\<lambda>i. 1 / 2) [1, 2] [1] [1] (Some [0]) None None
     = Inl (ValueError Time_information_check)
   \<and> qdm_apply_location example_utils example_distribution example_qdm [1, 2] [1] [1]
       (Some [0]) None None
     = Inl (ValueError Time_information_check)
   \<and> (isimip_apply_location example_utils example_isimip example_isimip_steps (\<lambda>i. 1 / 2)
         [1, 2] [1] [1] (Some [0]) None None
       = Inl (ValueError Time_information_check)
      \<or> isimip_apply_location example_utils example_isimip example_isimip_steps (\<lambda>i. 1 / 2)
         [1, 2] [1] [1] (Some [0]) None None
       = Inl (ValueError Reasonable_physical_range_check))"
proof -
  have t: "time_arrays_given_or_inferred example_utils [1, 2] [1] [1] (Some [0]) None None
           = ([0], [0], [0])"
    by (simp add: time_arrays_given_or_inferred_def
        infer_and_create_time_arrays_if_not_given_def create_array_of_consecutive_dates_def)
  have m: "length [1, 2 :: real] \<noteq> length [0 :: time] \<or> length [1 :: real] \<noteq> length [0 :: time]
      \<or> length [1 :: real] \<noteq> length [0 :: time]"
    by simp
  show ?thesis
    by (rule time_information_mismatch_is_fatal[OF t m])
qed

subsection \<open>CDFt: the identity case\<close>


subsection \<open>The source of randomness\<close>



















subsection \<open>ISIMIP, step 6: the entries set to the lower bound\<close>

lemma py_round_of_int [simp]: "py_round (of_int k) = k"
  by (simp add: py_round_def)

lemma py_round_of_nat [simp]: "py_round (real k) = int k"
  using py_round_of_int[of "int k"] by simp

lemma mset_argsort: "mset (argsort x) = mset [0..<length x]"
  by (simp add: argsort_def)

lemma length_argsort [simp]: "length (argsort x) = length x"
  by (simp add: argsort_def)

lemma set_argsort [simp]: "set (argsort x) = {0..<length x}"
  by (simp add: argsort_def)

lemma distinct_argsort: "distinct (argsort x)"
  by (simp add: argsort_def)

lemma argsort_nth_less: "j < length x \<Longrightarrow> argsort x ! j < length x"
  using set_argsort[of x] nth_mem[of j "argsort x"] by (metis atLeastLessThan_iff length_argsort)

lemma mset_map_argsort: "mset (map (\<lambda>i. x ! i) (argsort x)) = mset x"
proof -
  have "mset (map (\<lambda>i. x ! i) (argsort x)) = image_mset (\<lambda>i. x ! i) (mset (argsort x))"
    by simp
  also have "\<dots> = image_mset (\<lambda>i. x ! i) (mset [0..<length x])"
    by (simp only: mset_argsort)
  also have "\<dots> = mset (map (\<lambda>i. x ! i) [0..<length x])"
    by simp
  also have "\<dots> = mset x"
    by (simp add: map_nth)
  finally show ?thesis .
qed

lemma argsort_argsort_inverse:
  assumes "j < length x"
  shows "argsort (argsort x) ! (argsort x ! j) = j"
proof -
  let ?p = "argsort x"
  let ?r = "argsort ?p"
  have len: "length ?r = length x" by simp
  have "sorted (map (\<lambda>i. ?p ! i) ?r)"
    unfolding argsort_def[of ?p] by (rule sorted_sort_key)
  moreover have "mset (map (\<lambda>i. ?p ! i) ?r) = mset [0..<length x]"
    by (simp only: mset_map_argsort mset_argsort)
  ultimately have "map (\<lambda>i. ?p ! i) ?r = [0..<length x]"
    by (metis properties_for_sort sort_upt)
  then have pr: "\<And>k. k < length x \<Longrightarrow> ?p ! (?r ! k) = k"
    by (metis len nth_map nth_upt add_0)
  have i: "?p ! j < length x" using assms by (rule argsort_nth_less)
  have "?r ! (?p ! j) < length ?p"
    using argsort_nth_less[of "?p ! j" ?p] i by simp
  moreover have "?p ! (?r ! (?p ! j)) = ?p ! j" using pr[OF i] .
  ultimately show ?thesis
    using distinct_argsort[of x] assms by (simp add: nth_eq_iff_index_eq)
qed


lemma length_filter_mset_eq:
  "mset ys = mset xs \<Longrightarrow> length (filter P ys) = length (filter P xs)"
  by (metis mset_filter size_mset)

lemma length_filter_id_map: "length (filter id (map P xs)) = length (filter P xs)"
  by (induction xs) simp_all

lemma length_filter_disjoint:
  "(\<And>x. P x \<Longrightarrow> \<not> Q x) \<Longrightarrow> length (filter P xs) + length (filter Q xs) \<le> length xs"
  by (induction xs) auto

lemma sort_eq_Nil [simp]: "sort xs = [] \<longleftrightarrow> xs = []"
  by (metis length_sort length_0_conv)

lemma percent_all:
  assumes "xs \<noteq> []" and "\<forall>v\<in>set xs. P v"
  shows "step6_calculate_percent_values_beyond_threshold (map P xs) = 1"
proof -
  have "filter P xs = xs" using assms(2) by (simp add: filter_id_conv)
  then have "length (filter id (map P xs)) = length xs" by (simp add: length_filter_id_map)
  then show ?thesis using assms(1)
    by (simp add: step6_calculate_percent_values_beyond_threshold_def)
qed

lemma percent_none:
  assumes "\<forall>v\<in>set xs. \<not> P v"
  shows "step6_calculate_percent_values_beyond_threshold (map P xs) = 0"
proof -
  have "filter P xs = []" using assms by (simp add: filter_empty_conv)
  then have "length (filter id (map P xs)) = 0" by (simp add: length_filter_id_map)
  then show ?thesis
    by (simp add: step6_calculate_percent_values_beyond_threshold_def)
qed

lemma step6_get_P_obs_future_equal [simp]: "step6_get_P_obs_future p p q = q"
  by (simp add: step6_get_P_obs_future_def isclose_def)

lemma nr_of_entries_equal_frequencies:
  assumes "adjust_frequencies_of_values_beyond_thresholds cfg"
    and "m_obs \<noteq> []" and "m_hist \<noteq> []" and "m_fut \<noteq> []"
    and "step6_calculate_percent_values_beyond_threshold m_obs
         = step6_calculate_percent_values_beyond_threshold m_hist"
  shows "step6_get_nr_of_entries_to_set_to_bound cfg m_obs m_hist m_fut
         = Inr (int (length (filter id m_fut)))"
proof -
  have "real (length m_fut) * (real (length (filter id m_fut)) / real (length m_fut))
        = real (length (filter id m_fut))"
    using assms(4) by simp
  then show ?thesis
    using assms
    by (simp add: step6_get_nr_of_entries_to_set_to_bound_def
        step6_calculate_percent_values_beyond_threshold_def[of m_fut])
qed

lemma length_scatter [simp]: "length (scatter a m vs) = length a"
  by (induction a m vs rule: scatter.induct) (simp_all split: list.splits)

lemma scatter_unchanged:
  "j < length a \<Longrightarrow> j < length m \<Longrightarrow> \<not> m ! j \<Longrightarrow> scatter a m vs ! j = a ! j"
proof (induction a m vs arbitrary: j rule: scatter.induct)
  case (1 a as m ms vals)
  then show ?case
    by (cases j) (auto split: list.splits)
qed simp_all

lemma mask_assign_unchanged:
  assumes "mask_assign a m vs = Inr a'"
  shows "length a' = length a" and "j < length a \<Longrightarrow> \<not> m ! j \<Longrightarrow> a' ! j = a ! j"
  using assms
  by (auto simp: mask_assign_def scatter_unchanged split: if_splits)


lemma step6_counts_lower_threshold_only:
  assumes adj: "adjust_frequencies_of_values_beyond_thresholds cfg"
    and hl: "has_lower_threshold cfg"
    and up: "\<not> has_upper_threshold cfg \<or> lower_threshold cfg < upper_threshold cfg"
    and ne: "obs_hist \<noteq> []" "cm_hist \<noteq> []" "cm_future \<noteq> []"
    and obs: "\<forall>v\<in>set obs_hist. v \<le> lower_threshold cfg"
    and hist: "\<forall>v\<in>set cm_hist. v \<le> lower_threshold cfg"
    and cs: "mset cs = mset cm_future"
  shows "\<exists>ku. step6_nr_of_entries_to_set_to_bounds cfg (sort obs_hist) (sort cm_hist) cs
            = Inr (int (length (filter (\<lambda>v. v \<le> lower_threshold cfg) cm_future)), int ku)
          \<and> length (filter (\<lambda>v. v \<le> lower_threshold cfg) cm_future) + ku \<le> length cm_future"
proof -
  let ?thr = "lower_threshold cfg"
  let ?k = "length (filter (\<lambda>v. v \<le> ?thr) cm_future)"
  have len: "length cs = length cm_future" using cs by (metis size_mset)
  have cs_ne: "cs \<noteq> []" using len ne(3) by auto
  have lower: "step6_get_nr_of_entries_to_set_to_bound cfg
        (get_mask_for_values_beyond_lower_threshold cfg (sort obs_hist))
        (get_mask_for_values_beyond_lower_threshold cfg (sort cm_hist))
        (get_mask_for_values_beyond_lower_threshold cfg cs) = Inr (int ?k)"
  proof -
    have "step6_calculate_percent_values_beyond_threshold
            (get_mask_for_values_beyond_lower_threshold cfg (sort obs_hist)) = 1"
      unfolding get_mask_for_values_beyond_lower_threshold_def
      using ne(1) obs by (intro percent_all) simp_all
    moreover have "step6_calculate_percent_values_beyond_threshold
            (get_mask_for_values_beyond_lower_threshold cfg (sort cm_hist)) = 1"
      unfolding get_mask_for_values_beyond_lower_threshold_def
      using ne(2) hist by (intro percent_all) simp_all
    moreover have "length (filter id (get_mask_for_values_beyond_lower_threshold cfg cs)) = ?k"
      unfolding get_mask_for_values_beyond_lower_threshold_def
      by (simp add: length_filter_id_map length_filter_mset_eq[OF cs])
    ultimately show ?thesis
      using nr_of_entries_equal_frequencies[OF adj,
          of "get_mask_for_values_beyond_lower_threshold cfg (sort obs_hist)"
             "get_mask_for_values_beyond_lower_threshold cfg (sort cm_hist)"
             "get_mask_for_values_beyond_lower_threshold cfg cs"]
        ne(1,2) cs_ne
      by (simp add: get_mask_for_values_beyond_lower_threshold_def)
  qed
  show ?thesis
  proof (cases "has_upper_threshold cfg")
    case False
    have "\<not> length cm_future < ?k" by (simp add: not_less)
    then have "step6_nr_of_entries_to_set_to_bounds cfg (sort obs_hist) (sort cm_hist) cs
            = Inr (int ?k, int 0) \<and> ?k + 0 \<le> length cm_future"
      using lower hl False len by (simp add: step6_nr_of_entries_to_set_to_bounds_def)
    then show ?thesis by (rule exI)
  next
    case True
    with up have lt: "?thr < upper_threshold cfg" by simp
    let ?ku = "length (filter (\<lambda>v. upper_threshold cfg \<le> v) cm_future)"
    have "step6_calculate_percent_values_beyond_threshold
            (get_mask_for_values_beyond_upper_threshold cfg (sort obs_hist)) = 0"
      unfolding get_mask_for_values_beyond_upper_threshold_def
      using obs lt by (intro percent_none) auto
    moreover have "step6_calculate_percent_values_beyond_threshold
            (get_mask_for_values_beyond_upper_threshold cfg (sort cm_hist)) = 0"
      unfolding get_mask_for_values_beyond_upper_threshold_def
      using hist lt by (intro percent_none) auto
    moreover have "length (filter id (get_mask_for_values_beyond_upper_threshold cfg cs)) = ?ku"
      unfolding get_mask_for_values_beyond_upper_threshold_def
      by (simp add: length_filter_id_map length_filter_mset_eq[OF cs])
    ultimately have upper: "step6_get_nr_of_entries_to_set_to_bound cfg
        (get_mask_for_values_beyond_upper_threshold cfg (sort obs_hist))
        (get_mask_for_values_beyond_upper_threshold cfg (sort cm_hist))
        (get_mask_for_values_beyond_upper_threshold cfg cs) = Inr (int ?ku)"
      using nr_of_entries_equal_frequencies[OF adj,
          of "get_mask_for_values_beyond_upper_threshold cfg (sort obs_hist)"
             "get_mask_for_values_beyond_upper_threshold cfg (sort cm_hist)"
             "get_mask_for_values_beyond_upper_threshold cfg cs"]
        ne(1,2) cs_ne
      by (simp add: get_mask_for_values_beyond_upper_threshold_def)
    have le: "?k + ?ku \<le> length cm_future"
      using lt by (intro length_filter_disjoint) auto
    then have nlt: "\<not> length cm_future < ?k + ?ku" by simp
    have "step6_nr_of_entries_to_set_to_bounds cfg (sort obs_hist) (sort cm_hist) cs
            = Inr (int ?k, int ?ku) \<and> ?k + ?ku \<le> length cm_future"
      using lower upper hl True le nlt len
      by (simp add: step6_nr_of_entries_to_set_to_bounds_def)
    then show ?thesis by (rule exI)
  qed
qed


text \<open>
  C6, as amended. The claim holds if, besides its own conditions (frequencies are
  adjusted, a lower threshold is configured, and all values of \<open>obs_hist\<close> and
  \<open>cm_hist\<close>, both non-empty, are beyond it), no upper threshold is configured or
  the lower threshold lies below the upper one, and \<open>cm_future\<close> is not empty. Then both
  historical proportions are 1, the closed form gives \<open>P_obs_future = P_cm_future\<close>, the
  number of entries set to the lower bound is \<open>round (size \<cdot> P_obs_future)\<close>, which is
  the number of values of \<open>cm_future\<close> beyond the lower threshold, it is not scaled, and
  whenever step 6 returns an array, the entries at the positions of the that many
  smallest values of \<open>cm_future\<close> are equal to \<open>lower_bound\<close>.
\<close>

theorem step6_forces_lower_bound:
  assumes adj: "adjust_frequencies_of_values_beyond_thresholds cfg"
    and hl: "has_lower_threshold cfg"
    and up: "\<not> has_upper_threshold cfg \<or> lower_threshold cfg < upper_threshold cfg"
    and ne: "obs_hist \<noteq> []" "cm_hist \<noteq> []" "cm_future \<noteq> []"
    and obs: "\<forall>v\<in>set obs_hist. v \<le> lower_threshold cfg"
    and hist: "\<forall>v\<in>set cm_hist. v \<le> lower_threshold cfg"
    and run: "step6 cfg adjust_values_between_thresholds obs_hist obs_future cm_hist cm_future
              = Inr out"
  shows "\<exists>nr_lower nr_upper P_cm_future.
           P_cm_future = step6_calculate_percent_values_beyond_threshold
                           (get_mask_for_values_beyond_lower_threshold cfg
                              (map (\<lambda>i. cm_future ! i) (argsort cm_future)))
         \<and> step6_calculate_percent_values_beyond_threshold
               (get_mask_for_values_beyond_lower_threshold cfg (sort obs_hist)) = 1
         \<and> step6_calculate_percent_values_beyond_threshold
               (get_mask_for_values_beyond_lower_threshold cfg (sort cm_hist)) = 1
         \<and> step6_get_P_obs_future 1 1 P_cm_future = P_cm_future
         \<and> step6_nr_of_entries_to_set_to_bounds cfg (sort obs_hist) (sort cm_hist)
               (map (\<lambda>i. cm_future ! i) (argsort cm_future)) = Inr (nr_lower, nr_upper)
         \<and> nr_lower = py_round (real (length cm_future)
                                   * step6_get_P_obs_future 1 1 P_cm_future)
         \<and> nr_lower = int (length (filter (\<lambda>v. v \<le> lower_threshold cfg) cm_future))
         \<and> length out = length cm_future
         \<and> (\<forall>j < nat nr_lower. out ! (argsort cm_future ! j) = lower_bound cfg)"
proof -
  let ?thr = "lower_threshold cfg"
  let ?as = "argsort cm_future"
  let ?cs = "map (\<lambda>i. cm_future ! i) ?as"
  let ?n = "length cm_future"
  let ?k = "length (filter (\<lambda>v. v \<le> ?thr) cm_future)"
  have cs: "mset ?cs = mset cm_future" by (rule mset_map_argsort)
  obtain ku where counts: "step6_nr_of_entries_to_set_to_bounds cfg (sort obs_hist)
        (sort cm_hist) ?cs = Inr (int ?k, int ku)" and le: "?k + ku \<le> ?n"
    using step6_counts_lower_threshold_only[OF adj hl up ne obs hist cs] by blast
  have p_obs: "step6_calculate_percent_values_beyond_threshold
               (get_mask_for_values_beyond_lower_threshold cfg (sort obs_hist)) = 1"
    unfolding get_mask_for_values_beyond_lower_threshold_def
    using ne(1) obs by (intro percent_all) simp_all
  have p_hist: "step6_calculate_percent_values_beyond_threshold
               (get_mask_for_values_beyond_lower_threshold cfg (sort cm_hist)) = 1"
    unfolding get_mask_for_values_beyond_lower_threshold_def
    using ne(2) hist by (intro percent_all) simp_all
  have "length (filter id (get_mask_for_values_beyond_lower_threshold cfg ?cs)) = ?k"
    unfolding get_mask_for_values_beyond_lower_threshold_def
    by (simp only: length_filter_id_map length_filter_mset_eq[OF cs])
  then have p_fut: "real ?n * step6_calculate_percent_values_beyond_threshold
               (get_mask_for_values_beyond_lower_threshold cfg ?cs) = real ?k"
    using ne(3)
    by (simp add: step6_calculate_percent_values_beyond_threshold_def
        get_mask_for_values_beyond_lower_threshold_def)
  define mask_l where "mask_l = step6_get_mask_for_entries_to_set_to_lower_bound (int ?k) ?cs"
  define mask_u where "mask_u = step6_get_mask_for_entries_to_set_to_upper_bound (int ku) ?cs"
  define mapped where "mapped = map2 (\<lambda>v m. if m then upper_bound cfg else v)
      (map2 (\<lambda>v m. if m then lower_bound cfg else v) ?cs mask_l) mask_u"
  define mask_n where "mask_n = map2 (\<lambda>l u. \<not> l \<and> \<not> u) mask_l mask_u"
  have len_l: "length mask_l = ?n" and len_u: "length mask_u = ?n"
    by (simp_all add: mask_l_def mask_u_def
        step6_get_mask_for_entries_to_set_to_lower_bound_def
        step6_get_mask_for_entries_to_set_to_upper_bound_def)
  have l_nth: "mask_l ! j" if "j < ?k" for j
    using that le
    by (simp add: mask_l_def step6_get_mask_for_entries_to_set_to_lower_bound_def
        py_slice_bound_def)
  have u_nth: "\<not> mask_u ! j" if "j < ?k" for j
    using that le
    by (simp add: mask_u_def step6_get_mask_for_entries_to_set_to_upper_bound_def
        py_slice_bound_def)
  have mapped_len: "length mapped = ?n"
    by (simp add: mapped_def len_l len_u)
  have mapped_nth: "mapped ! j = lower_bound cfg" if "j < ?k" for j
    using that le l_nth[OF that] u_nth[OF that]
    by (simp add: mapped_def len_l len_u)
  have n_nth: "\<not> mask_n ! j" if "j < ?k" for j
    using that le l_nth[OF that]
    by (simp add: mask_n_def len_l len_u)
  from run obtain mapped' where
    m': "(if list_ex id mask_n
          then bind (adjust_values_between_thresholds
                       (get_values_between_thresholds cfg (sort obs_hist))
                       (get_values_between_thresholds cfg (sort obs_future))
                       (get_values_between_thresholds cfg (sort cm_hist))
                       (map fst (filter snd (zip mapped mask_n)))
                       (get_values_between_thresholds cfg ?cs))
                 (mask_assign mapped mask_n)
          else Inr mapped) = Inr mapped'"
    and out: "out = map (\<lambda>i. mapped' ! i) (argsort ?as)"
    unfolding step6_def Let_def counts bind_Inr prod.case
      mask_l_def[symmetric] mask_u_def[symmetric] mapped_def[symmetric] mask_n_def[symmetric]
    by (auto simp: bind_eq_Inr)
  have keep: "length mapped' = ?n \<and> (\<forall>j < ?k. mapped' ! j = lower_bound cfg)"
  proof (cases "list_ex id mask_n")
    case False
    with m' have "mapped' = mapped" by simp
    then show ?thesis using mapped_len mapped_nth by simp
  next
    case True
    with m' obtain vals where "mask_assign mapped mask_n vals = Inr mapped'"
      by (auto simp: bind_eq_Inr)
    from mask_assign_unchanged[OF this] show ?thesis
      using mapped_len mapped_nth n_nth le by auto
  qed
  have out_nth: "out ! (?as ! j) = lower_bound cfg" if "j < ?k" for j
  proof -
    have j: "j < ?n" using that le by simp
    then have "?as ! j < ?n" by (rule argsort_nth_less)
    then have "out ! (?as ! j) = mapped' ! (argsort ?as ! (?as ! j))"
      by (simp add: out)
    also have "\<dots> = mapped' ! j" by (simp add: argsort_argsort_inverse[OF j])
    finally show ?thesis using keep that by simp
  qed
  have out_len: "length out = ?n" by (simp add: out)
  have pr: "py_round (real ?n * step6_get_P_obs_future 1 1
          (step6_calculate_percent_values_beyond_threshold
             (get_mask_for_values_beyond_lower_threshold cfg ?cs))) = int ?k"
    by (simp add: p_fut)
  show ?thesis
    apply (rule exI[where x = "int ?k"])
    apply (rule exI[where x = "int ku"])
    apply (rule exI[where x = "step6_calculate_percent_values_beyond_threshold
             (get_mask_for_values_beyond_lower_threshold cfg ?cs)"])
    using pr counts p_obs p_hist keep out_nth out_len
    by simp
qed

lemma step6_example:
  "step6 example_isimip (\<lambda>a b c d e. Inr d) [Fin (1 / 2)] [Fin (1 / 2)] [Fin (1 / 4)]
      [Fin 2, Fin (1 / 2), Fin 3] = Inr [Fin 2, Fin 0, Fin 3]"
  by code_simp

theorem step6_forces_lower_bound_witness:
  "\<exists>nr_upper. step6_nr_of_entries_to_set_to_bounds example_isimip [Fin (1 / 2)] [Fin (1 / 4)]
       [Fin (1 / 2), Fin 2, Fin 3] = Inr (1, nr_upper)
    \<and> step6 example_isimip (\<lambda>a b c d e. Inr d) [Fin (1 / 2)] [Fin (1 / 2)] [Fin (1 / 4)]
      [Fin 2, Fin (1 / 2), Fin 3] = Inr [Fin 2, Fin 0, Fin 3]
    \<and> [Fin 2, Fin 0, Fin 3] ! 1 = lower_bound example_isimip"
proof -
  have a: "argsort [Fin 2, Fin (1 / 2), Fin 3] = [1, 0, 2]" by code_simp
  have s: "has_lower_threshold example_isimip" "\<not> has_upper_threshold example_isimip"
    by (simp_all add: has_lower_threshold_def has_upper_threshold_def less_fl_def)
  have le: "Fin (1 / 2) \<le> Fin 1" "Fin (1 / 4) \<le> Fin 1" "\<not> Fin 2 \<le> Fin 1" "\<not> Fin 3 \<le> Fin 1"
    by (simp_all add: less_eq_fl_def)
  show ?thesis
    using step6_forces_lower_bound[where cfg = example_isimip
        and adjust_values_between_thresholds = "\<lambda>a b c d e. Inr d"
        and obs_hist = "[Fin (1 / 2)]" and obs_future = "[Fin (1 / 2)]"
        and cm_hist = "[Fin (1 / 4)]" and cm_future = "[Fin 2, Fin (1 / 2), Fin 3]"
        and out = "[Fin 2, Fin 0, Fin 3]", OF _ s(1) _ _ _ _ _ _ step6_example]
      step6_example
    by (auto simp add: a s le)
qed

text \<open>
  C6 as it is stated fails when an upper threshold at or below the lower threshold is
  configured as well, as it is with the defaults of the class for the upper side
  (\<open>upper_threshold = upper_bound = -\<infinity>\<close>, which counts as a configured threshold).
  With the lower threshold 1 and bound 0, one value \<open>1 / 2\<close> in \<open>obs_hist\<close> and in
  \<open>cm_hist\<close>, and \<open>cm_future = [1 / 4, 3 / 4]\<close>, the conditions of the claim hold and
  \<open>round (size \<cdot> P_obs_future) = 2\<close>; but the upper count is 2 as well, the two counts
  are scaled to 1 and 1, and step 6 returns \<open>[0, -\<infinity>]\<close>: one entry is set to the lower
  bound, not two.
\<close>

theorem step6_forces_lower_bound_counterexample:
  "adjust_frequencies_of_values_beyond_thresholds
       (example_isimip\<lparr>upper_bound := NInf, upper_threshold := NInf\<rparr>)
   \<and> has_lower_threshold (example_isimip\<lparr>upper_bound := NInf, upper_threshold := NInf\<rparr>)
   \<and> Fin (1 / 2) \<le> lower_threshold (example_isimip\<lparr>upper_bound := NInf, upper_threshold := NInf\<rparr>)
   \<and> py_round (real (length [Fin (1 / 4), Fin (3 / 4)]) * step6_get_P_obs_future 1 1 1) = 2
   \<and> step6_nr_of_entries_to_set_to_bounds
         (example_isimip\<lparr>upper_bound := NInf, upper_threshold := NInf\<rparr>)
         [Fin (1 / 2)] [Fin (1 / 2)] [Fin (1 / 4), Fin (3 / 4)] = Inr (1, 1)
   \<and> step6 (example_isimip\<lparr>upper_bound := NInf, upper_threshold := NInf\<rparr>)
         (\<lambda>a b c d e. Inr d) [Fin (1 / 2)] [Fin (1 / 2)] [Fin (1 / 2)]
         [Fin (1 / 4), Fin (3 / 4)] = Inr [Fin 0, NInf]"
  by code_simp

end
